theory Spec2Isabelle
  imports Main "HOL-Library.Word"
begin

unbundle bit_operations_syntax

section \<open>JavaScript values\<close>

text \<open>
  The event data handed to \<^verbatim>\<open>logQCHAIN\<close> is a plain JavaScript object. Values are
  modelled as trees: \<^verbatim>\<open>undefined\<close>, \<^verbatim>\<open>null\<close>, booleans, numbers, strings, arrays and
  objects. An object is the list of its own enumerable properties in the order JavaScript
  enumerates them (keys distinct); a missing property reads as \<^verbatim>\<open>undefined\<close>. An
  array is its elements together with the properties it has beside its indices and
  \<^verbatim>\<open>length\<close> (none, unless code assigns one).
  Numbers are the integers of absolute value below \<^verbatim>\<open>1e21\<close>, which \<^verbatim>\<open>Number::toString\<close>
  prints in decimal, and the three non-finite ones; fractions and larger numbers (printed
  with an exponent) are outside the model, and no result below depends on how a number
  prints.
  Strings are byte strings: a character beyond ASCII is its UTF-8 bytes, which is what
  \<^verbatim>\<open>TextEncoder.encode\<close> hands to the digest.
\<close>

datatype jsnum = Finite int | NaN | PosInfinity | NegInfinity

datatype jsval =
    Undefined
  | Null
  | Boolean bool
  | Number jsnum
  | Str string
  | Arr "jsval list" "(string \<times> jsval) list"
  | Obj "(string \<times> jsval) list"

type_synonym jsobj = "(string \<times> jsval) list"

text \<open>\<^verbatim>\<open>ToBoolean\<close>: what \<^verbatim>\<open>!x\<close> and \<^verbatim>\<open>x || y\<close> test.\<close>

fun truthy :: "jsval \<Rightarrow> bool" where
  "truthy Undefined = False"
| "truthy Null = False"
| "truthy (Boolean b) = b"
| "truthy (Number (Finite i)) = (i \<noteq> 0)"
| "truthy (Number NaN) = False"
| "truthy (Number PosInfinity) = True"
| "truthy (Number NegInfinity) = True"
| "truthy (Str s) = (s \<noteq> [])"
| "truthy (Arr xs ps) = True"
| "truthy (Obj ps) = True"

text \<open>Reading \<^verbatim>\<open>o.k\<close> on an object: the property's value, or \<^verbatim>\<open>undefined\<close>.\<close>

definition get :: "jsobj \<Rightarrow> string \<Rightarrow> jsval" where
  "get ps k = (case map_of ps k of None \<Rightarrow> Undefined | Some v \<Rightarrow> v)"

text \<open>
  Writing \<^verbatim>\<open>o.k = v\<close> on an object: an existing property keeps its place in the
  enumeration order, a new one goes last.
\<close>

fun put :: "jsobj \<Rightarrow> string \<Rightarrow> jsval \<Rightarrow> jsobj" where
  "put [] k v = [(k, v)]"
| "put (p # ps) k v = (if fst p = k then (k, v) # ps else p # put ps k v)"

datatype error =
    Error string
  | TypeError
  | TransmissionError

text \<open>
  Reading a property of an arbitrary value, used for \<^verbatim>\<open>data.metrics.compliance\<close>
  when \<^verbatim>\<open>data.metrics\<close> is truthy: an object answers with its property, an array with
  the property it has beside its elements (the names read here are never an index or
  \<^verbatim>\<open>length\<close>); a primitive has no property of that name.
\<close>

fun get_prop :: "jsval \<Rightarrow> string \<Rightarrow> jsval" where
  "get_prop (Obj ps) k = get ps k"
| "get_prop (Arr xs ps) k = get ps k"
| "get_prop v k = Undefined"

text \<open>
  Writing a property of an arbitrary truthy value. \<^verbatim>\<open>QCHAIN.js\<close> is an ES module,
  hence strict code: assigning a property of a primitive throws a \<^verbatim>\<open>TypeError\<close>. An
  array accepts the property beside its elements.
\<close>

fun assign_prop :: "jsval \<Rightarrow> string \<Rightarrow> jsval \<Rightarrow> error + jsval" where
  "assign_prop (Obj ps) k v = Inr (Obj (put ps k v))"
| "assign_prop (Arr xs ps) k v = Inr (Arr xs (put ps k v))"
| "assign_prop w k v = Inl TypeError"

section \<open>Strings of numbers and bytes\<close>

definition is_digit :: "char \<Rightarrow> bool" where
  "is_digit c = (c \<in> set ''0123456789'')"

definition is_hex :: "char \<Rightarrow> bool" where
  "is_hex c = (c \<in> set ''0123456789abcdef'')"

definition hexdig :: "nat \<Rightarrow> char" where
  "hexdig n = ''0123456789abcdef'' ! (n mod 16)"

definition decdig :: "nat \<Rightarrow> char" where
  "decdig n = ''0123456789'' ! (n mod 10)"

text \<open>\<^verbatim>\<open>String(n)\<close> for a non-negative integer: its decimal digits.\<close>

fun string_of_nat :: "nat \<Rightarrow> string" where
  "string_of_nat n =
     (if n < 10 then [decdig n] else string_of_nat (n div 10) @ [decdig n])"

declare string_of_nat.simps [simp del]

definition string_of_int :: "int \<Rightarrow> string" where
  "string_of_int i = (if 0 \<le> i then string_of_nat (nat i) else CHR ''-'' # string_of_nat (nat (- i)))"

text \<open>\<^verbatim>\<open>b.toString(16).padStart(2, '0')\<close> for a byte.\<close>

definition byte_hex :: "8 word \<Rightarrow> string" where
  "byte_hex b = [hexdig (unat b div 16), hexdig (unat b mod 16)]"

text \<open>\<^verbatim>\<open>new TextEncoder().encode(s)\<close>: the bytes of the string.\<close>

definition encode :: "string \<Rightarrow> 8 word list" where
  "encode s = map (\<lambda>c. of_nat (of_char c)) s"

section \<open>\<^verbatim>\<open>JSON.stringify\<close>\<close>

definition dquote :: char where
  "dquote = CHR 0x22"

definition backslash :: char where
  "backslash = CHR 0x5C"

text \<open>
  \<^verbatim>\<open>QuoteJSONString\<close>: the quote and the backslash are escaped, the control characters
  have their short escapes or \<^verbatim>\<open>\u00XX\<close>, everything else stands for itself.
\<close>

definition json_escape :: "char \<Rightarrow> string" where
  "json_escape c =
     (if c = dquote then [backslash, dquote]
      else if c = backslash then [backslash, backslash]
      else if c = CHR 0x08 then [backslash, CHR ''b'']
      else if c = CHR 0x0C then [backslash, CHR ''f'']
      else if c = CHR 0x0A then [backslash, CHR ''n'']
      else if c = CHR 0x0D then [backslash, CHR ''r'']
      else if c = CHR 0x09 then [backslash, CHR ''t'']
      else if (of_char c :: nat) < 32
        then [backslash, CHR ''u'', CHR ''0'', CHR ''0'',
              hexdig ((of_char c :: nat) div 16), hexdig ((of_char c :: nat) mod 16)]
      else [c])"

definition quoteJSONString :: "string \<Rightarrow> string" where
  "quoteJSONString s = [dquote] @ concat (map json_escape s) @ [dquote]"

fun join :: "string \<Rightarrow> string list \<Rightarrow> string" where
  "join sep [] = []"
| "join sep [x] = x"
| "join sep (x # y # ys) = x @ sep @ join sep (y # ys)"

text \<open>
  \<^verbatim>\<open>JSON.stringify(v)\<close>; \<open>None\<close> is the result \<^verbatim>\<open>undefined\<close>. A property whose value is
  \<^verbatim>\<open>undefined\<close> is left out of its object, an \<^verbatim>\<open>undefined\<close> array element is written
  \<^verbatim>\<open>null\<close>, and so is a number that is not finite. Of an array only the elements are
  written.
\<close>

fun JSON_stringify :: "jsval \<Rightarrow> string option" where
  "JSON_stringify Undefined = None"
| "JSON_stringify Null = Some ''null''"
| "JSON_stringify (Boolean b) = Some (if b then ''true'' else ''false'')"
| "JSON_stringify (Number n) =
     Some (case n of Finite i \<Rightarrow> string_of_int i | _ \<Rightarrow> ''null'')"
| "JSON_stringify (Str s) = Some (quoteJSONString s)"
| "JSON_stringify (Arr xs ps) =
     Some (''['' @ join '','' (map (\<lambda>x. case JSON_stringify x of
                                          None \<Rightarrow> ''null'' | Some t \<Rightarrow> t) xs) @ '']'')"
| "JSON_stringify (Obj ps) =
     Some (''{'' @ join '','' (concat (map (\<lambda>p. case JSON_stringify (snd p) of
                                          None \<Rightarrow> []
                                        | Some t \<Rightarrow> [quoteJSONString (fst p) @ '':'' @ t]) ps))
           @ ''}'')"

text \<open>
  \<^verbatim>\<open>JSON.parse(JSON.stringify(v))\<close> as a function on values: what comes back from
  the store. Properties that were \<^verbatim>\<open>undefined\<close> are gone, \<^verbatim>\<open>undefined\<close> array
  elements and non-finite numbers have become \<^verbatim>\<open>null\<close>, and an array has its elements
  only.
\<close>

fun json_roundtrip :: "jsval \<Rightarrow> jsval" where
  "json_roundtrip Undefined = Undefined"
| "json_roundtrip Null = Null"
| "json_roundtrip (Boolean b) = Boolean b"
| "json_roundtrip (Number n) = (case n of Finite i \<Rightarrow> Number (Finite i) | _ \<Rightarrow> Null)"
| "json_roundtrip (Str s) = Str s"
| "json_roundtrip (Arr xs ps) =
     Arr (map (\<lambda>x. if x = Undefined then Null else json_roundtrip x) xs) []"
| "json_roundtrip (Obj ps) =
     Obj (map (\<lambda>p. (fst p, json_roundtrip (snd p))) (filter (\<lambda>p. snd p \<noteq> Undefined) ps))"

section \<open>SHA-256\<close>

text \<open>
  \<^verbatim>\<open>crypto.subtle.digest('SHA-256', bytes)\<close>, as FIPS 180-4 defines it, on 32-bit words.
  The general results below use one property of the digest only: it is 32 bytes long.
  It is evaluated on four texts further down.
\<close>

text \<open>The round constants, eight rounds to a row.\<close>

definition K256 :: "32 word list" where
  "K256 = concat
    [[0x428a2f98, 0x71374491, 0xb5c0fbcf, 0xe9b5dba5, 0x3956c25b, 0x59f111f1, 0x923f82a4, 0xab1c5ed5],
     [0xd807aa98, 0x12835b01, 0x243185be, 0x550c7dc3, 0x72be5d74, 0x80deb1fe, 0x9bdc06a7, 0xc19bf174],
     [0xe49b69c1, 0xefbe4786, 0x0fc19dc6, 0x240ca1cc, 0x2de92c6f, 0x4a7484aa, 0x5cb0a9dc, 0x76f988da],
     [0x983e5152, 0xa831c66d, 0xb00327c8, 0xbf597fc7, 0xc6e00bf3, 0xd5a79147, 0x06ca6351, 0x14292967],
     [0x27b70a85, 0x2e1b2138, 0x4d2c6dfc, 0x53380d13, 0x650a7354, 0x766a0abb, 0x81c2c92e, 0x92722c85],
     [0xa2bfe8a1, 0xa81a664b, 0xc24b8b70, 0xc76c51a3, 0xd192e819, 0xd6990624, 0xf40e3585, 0x106aa070],
     [0x19a4c116, 0x1e376c08, 0x2748774c, 0x34b0bcb5, 0x391c0cb3, 0x4ed8aa4a, 0x5b9cca4f, 0x682e6ff3],
     [0x748f82ee, 0x78a5636f, 0x84c87814, 0x8cc70208, 0x90befffa, 0xa4506ceb, 0xbef9a3f7, 0xc67178f2]]"

type_synonym hash_state =
  "32 word \<times> 32 word \<times> 32 word \<times> 32 word \<times> 32 word \<times> 32 word \<times> 32 word \<times> 32 word"

definition H256 :: hash_state where
  "H256 = (0x6a09e667, 0xbb67ae85, 0x3c6ef372, 0xa54ff53a,
           0x510e527f, 0x9b05688c, 0x1f83d9ab, 0x5be0cd19)"

definition Ch :: "32 word \<Rightarrow> 32 word \<Rightarrow> 32 word \<Rightarrow> 32 word" where
  "Ch x y z = (x AND y) XOR (NOT x AND z)"

definition Maj :: "32 word \<Rightarrow> 32 word \<Rightarrow> 32 word \<Rightarrow> 32 word" where
  "Maj x y z = (x AND y) XOR (x AND z) XOR (y AND z)"

definition bsig0 :: "32 word \<Rightarrow> 32 word" where
  "bsig0 x = word_rotr 2 x XOR word_rotr 13 x XOR word_rotr 22 x"

definition bsig1 :: "32 word \<Rightarrow> 32 word" where
  "bsig1 x = word_rotr 6 x XOR word_rotr 11 x XOR word_rotr 25 x"

definition ssig0 :: "32 word \<Rightarrow> 32 word" where
  "ssig0 x = word_rotr 7 x XOR word_rotr 18 x XOR drop_bit 3 x"

definition ssig1 :: "32 word \<Rightarrow> 32 word" where
  "ssig1 x = word_rotr 17 x XOR word_rotr 19 x XOR drop_bit 10 x"

text \<open>Padding: a one bit, zeros, and the length in bits as 64 bits, to a multiple of 64 bytes.\<close>

definition be_bytes :: "nat \<Rightarrow> nat \<Rightarrow> 8 word list" where
  "be_bytes k n = map (\<lambda>i. of_nat (n div 256 ^ (k - 1 - i))) [0..<k]"

definition sha_pad :: "8 word list \<Rightarrow> 8 word list" where
  "sha_pad m =
     m @ [0x80] @ replicate ((64 - (length m + 9) mod 64) mod 64) 0 @ be_bytes 8 (8 * length m)"

fun be_words :: "8 word list \<Rightarrow> 32 word list" where
  "be_words (a # b # c # d # r) =
     (push_bit 24 (ucast a) OR push_bit 16 (ucast b) OR push_bit 8 (ucast c) OR ucast d)
       # be_words r"
| "be_words r = []"

fun schedule :: "nat \<Rightarrow> 32 word list \<Rightarrow> 32 word list" where
  "schedule 0 w = w"
| "schedule (Suc n) w =
     (let t = length w in
      schedule n (w @ [ssig1 (w ! (t - 2)) + w ! (t - 7) + ssig0 (w ! (t - 15)) + w ! (t - 16)]))"

definition sha_round :: "hash_state \<Rightarrow> 32 word \<times> 32 word \<Rightarrow> hash_state" where
  "sha_round st kw =
     (case st of (a, b, c, d, e, f, g, h) \<Rightarrow>
        let t1 = h + bsig1 e + Ch e f g + fst kw + snd kw;
            t2 = bsig0 a + Maj a b c
        in (t1 + t2, a, b, c, d + t1, e, f, g))"

definition sha_add :: "hash_state \<Rightarrow> hash_state \<Rightarrow> hash_state" where
  "sha_add s t =
     (case s of (a, b, c, d, e, f, g, h) \<Rightarrow>
      case t of (a', b', c', d', e', f', g', h') \<Rightarrow>
        (a + a', b + b', c + c', d + d', e + e', f + f', g + g', h + h'))"

definition sha_block :: "hash_state \<Rightarrow> 8 word list \<Rightarrow> hash_state" where
  "sha_block st blk = sha_add st (foldl sha_round st (zip K256 (schedule 48 (be_words blk))))"

fun sha_blocks :: "nat \<Rightarrow> hash_state \<Rightarrow> 8 word list \<Rightarrow> hash_state" where
  "sha_blocks 0 st m = st"
| "sha_blocks (Suc n) st m = sha_blocks n (sha_block st (take 64 m)) (drop 64 m)"

definition word_bytes :: "32 word \<Rightarrow> 8 word list" where
  "word_bytes w = [ucast (drop_bit 24 w), ucast (drop_bit 16 w), ucast (drop_bit 8 w), ucast w]"

definition sha256 :: "8 word list \<Rightarrow> 8 word list" where
  "sha256 m =
     (case sha_blocks (length (sha_pad m) div 64) H256 (sha_pad m) of
        (a, b, c, d, e, f, g, h) \<Rightarrow>
          word_bytes a @ word_bytes b @ word_bytes c @ word_bytes d @
          word_bytes e @ word_bytes f @ word_bytes g @ word_bytes h)"

text \<open>\<^verbatim>\<open>hashArray.map(b => b.toString(16).padStart(2, '0')).join('')\<close>\<close>

definition toHex :: "8 word list \<Rightarrow> string" where
  "toHex hashArray = concat (map byte_hex hashArray)"

section \<open>The QCHAIN log\<close>

text \<open>
  What the module reads from its surroundings during one call: the clock as
  \<^verbatim>\<open>Date.now()\<close> (milliseconds since the epoch, a natural number: the clock is not set
  before 1970) and as \<^verbatim>\<open>new Date().toISOString()\<close>,
  whether background sync is on offer (\<^verbatim>\<open>'serviceWorker' in navigator && 'SyncManager' in window\<close>),
  and whether the transmission raises. \<^verbatim>\<open>transmitLog\<close> as written only prints and waits;
  \<open>sinkFails\<close> stands for any exception raised while it runs, which is what the
  \<^verbatim>\<open>try\<close>/\<^verbatim>\<open>catch\<close> of \<^verbatim>\<open>logQCHAIN\<close> is there for.
\<close>

record env =
  dateNow :: nat
  isoNow :: string
  backgroundSync :: bool
  sinkFails :: bool

text \<open>
  The effects, in the order they happen: the write to \<^verbatim>\<open>localStorage\<close>, the
  transmission (the \<^verbatim>\<open>console.log\<close> of \<^verbatim>\<open>transmitLog\<close>), its 240 ms wait, the
  \<^verbatim>\<open>console.error\<close> of a failed transmission, and one merge step of
  \<^verbatim>\<open>simulateSync\<close>.
\<close>

datatype event =
    SetItem "jsval list"
  | Transmission jsval
  | Timeout nat
  | ConsoleError
  | Merge nat

text \<open>
  The state: \<^verbatim>\<open>navigator.onLine\<close>, the item \<^verbatim>\<open>qchain_logs\<close> of \<^verbatim>\<open>localStorage\<close> and the
  effects so far. The item is written by \<^verbatim>\<open>storeLocalLog\<close> only, as the JSON text of
  an array, and removed by \<^verbatim>\<open>clearQCHAINLogs\<close>; the state keeps the array that the
  text denotes (\<open>None\<close>: no item). The storage takes every write: a full quota is not
  modelled. \<^verbatim>\<open>storeLocalLog\<close> does not register the background sync itself: it hands a
  callback to the promise \<^verbatim>\<open>navigator.serviceWorker.ready\<close>, and the callback registers
  \<^verbatim>\<open>'qchain-sync'\<close> when the promise is fulfilled, after the code that follows
  \<^verbatim>\<open>storeLocalLog\<close> has run up to its next \<^verbatim>\<open>await\<close>, or never. The state counts the
  callbacks handed over; when they run is not part of the ordered effects.
\<close>

record state =
  onLine :: bool
  localStorage :: "jsval list option"
  events :: "event list"
  syncRequests :: nat

record transmit_result =
  t_status :: string
  t_txId :: jsval

record log_result =
  r_status :: string
  r_txId :: jsval
  r_signature :: string

text \<open>
  \<^verbatim>\<open>JSON.stringify(data) + timestamp\<close> is written twice in the source, with operands of
  different types. In \<^verbatim>\<open>verifyQCHAINSignature\<close> the timestamp is a string (a capture
  group), so \<^verbatim>\<open>+\<close> concatenates and an \<^verbatim>\<open>undefined\<close> left operand reads
  \<^verbatim>\<open>"undefined"\<close>: this is \<open>stringify_text data @ timestamp\<close>. In
  \<^verbatim>\<open>createQuantumSignature\<close> the timestamp is the number \<^verbatim>\<open>Date.now()\<close>: a string on the
  left still concatenates with the number's digits, but \<^verbatim>\<open>undefined\<close> plus a number is
  \<^verbatim>\<open>NaN\<close>, which \<^verbatim>\<open>TextEncoder.encode\<close> reads as the text \<^verbatim>\<open>"NaN"\<close>: this is
  \<open>signed_text\<close>.
\<close>

definition stringify_text :: "jsval \<Rightarrow> string" where
  "stringify_text data = (case JSON_stringify data of None \<Rightarrow> ''undefined'' | Some t \<Rightarrow> t)"

definition signed_text :: "jsval \<Rightarrow> nat \<Rightarrow> string" where
  "signed_text data timestamp =
     (case JSON_stringify data of None \<Rightarrow> ''NaN'' | Some t \<Rightarrow> t @ string_of_nat timestamp)"

definition createQuantumSignature :: "env \<Rightarrow> jsval \<Rightarrow> string" where
  "createQuantumSignature e data =
     (let timestamp = dateNow e;
          hash = sha256 (encode (signed_text data timestamp));
          hashHex = toHex hash
      in ''QS-'' @ take 16 hashHex @ ''-'' @ string_of_nat timestamp)"

text \<open>\<^verbatim>\<open>JSON.parse(localStorage.getItem('qchain_logs') || '[]')\<close>\<close>

definition getQCHAINLogs :: "state \<Rightarrow> jsval list" where
  "getQCHAINLogs s = (case localStorage s of None \<Rightarrow> [] | Some logs \<Rightarrow> logs)"

definition clearQCHAINLogs :: "state \<Rightarrow> state" where
  "clearQCHAINLogs s = s\<lparr>localStorage := None\<rparr>"

text \<open>
  What an array is after \<^verbatim>\<open>JSON.stringify\<close> and \<^verbatim>\<open>JSON.parse\<close>, element by element.
\<close>

definition stored_form :: "jsval list \<Rightarrow> jsval list" where
  "stored_form logs = map (\<lambda>x. if x = Undefined then Null else json_roundtrip x) logs"

definition storeLocalLog :: "env \<Rightarrow> jsval \<Rightarrow> state \<Rightarrow> state" where
  "storeLocalLog e logData s =
     (let existingLogs = getQCHAINLogs s;
          existingLogs = existingLogs @ [logData];
          s = s\<lparr>localStorage := Some (stored_form existingLogs),
                 events := events s @ [SetItem (stored_form existingLogs)]\<rparr>
      in if backgroundSync e then s\<lparr>syncRequests := syncRequests s + 1\<rparr> else s)"

definition transmitLog :: "env \<Rightarrow> jsval \<Rightarrow> state \<Rightarrow> (error + transmit_result) \<times> state" where
  "transmitLog e logData s =
     (let s = s\<lparr>events := events s @ [Transmission logData]\<rparr> in
      if sinkFails e then (Inl TransmissionError, s)
      else
        let s = (if truthy (get_prop logData ''interplanetary'')
                 then s\<lparr>events := events s @ [Timeout 240]\<rparr> else s)
        in (Inr \<lparr>t_status = ''transmitted'', t_txId = get_prop logData ''txId''\<rparr>, s))"

text \<open>
  \<^verbatim>\<open>logQCHAIN(data)\<close>. The caller's object is mutated in place, so its new contents are
  returned beside the result and the state; \<open>Inl\<close> is a rejected promise.
\<close>

definition logQCHAIN :: "env \<Rightarrow> jsobj \<Rightarrow> state \<Rightarrow> (error + log_result) \<times> jsobj \<times> state" where
  "logQCHAIN e data s =
     (if \<not> truthy (get data ''event'') \<or> \<not> truthy (get data ''txId'')
      then (Inl (Error ''QCHAIN log requires event and txId fields''), data, s)
      else
        let data = (if \<not> truthy (get data ''timestamp'')
                    then put data ''timestamp'' (Str (isoNow e)) else data);
            data = (if get data ''interplanetary'' = Undefined
                    then put data ''interplanetary'' (Boolean True) else data);
            data = (if \<not> truthy (get data ''metrics'')
                    then put data ''metrics'' (Obj []) else data)
        in
        case (if \<not> truthy (get_prop (get data ''metrics'') ''compliance'')
              then assign_prop (get data ''metrics'') ''compliance'' (Str ''100%'')
              else Inr (get data ''metrics'')) of
          Inl err \<Rightarrow> (Inl err, data, s)
        | Inr metrics \<Rightarrow>
            let data = put data ''metrics'' metrics;
                signature = createQuantumSignature e (Obj data);
                s = storeLocalLog e (Obj (put data ''signature'' (Str signature))) s;
                s = (if onLine s
                     then (case transmitLog e (Obj (put data ''signature'' (Str signature))) s of
                             (Inl error, s') \<Rightarrow> s'\<lparr>events := events s' @ [ConsoleError]\<rparr>
                           | (Inr sent, s') \<Rightarrow> s')
                     else s)
            in (Inr \<lparr>r_status = ''logged'', r_txId = get data ''txId'', r_signature = signature\<rparr>,
                data, s))"

text \<open>
  \<^verbatim>\<open>signature.match(/QS-[0-9a-f]+-(\d+)/)\<close>, as the first capture group of the leftmost
  match. At a given start the pattern needs \<^verbatim>\<open>QS-\<close>, then hexadecimal digits, which must
  run up to a \<^verbatim>\<open>-\<close> (giving digits back cannot help: the character after a shorter run
  is a hexadecimal digit, not \<^verbatim>\<open>-\<close>), then decimal digits, of which the greedy group
  takes all there are.
\<close>

definition match_at :: "string \<Rightarrow> string option" where
  "match_at s =
     (if take 3 s = ''QS-'' then
        let hex = takeWhile is_hex (drop 3 s);
            rest = dropWhile is_hex (drop 3 s)
        in if hex \<noteq> [] \<and> take 1 rest = ''-'' then
             let digits = takeWhile is_digit (drop 1 rest)
             in if digits \<noteq> [] then Some digits else None
           else None
      else None)"

fun timestampMatch :: "string \<Rightarrow> string option" where
  "timestampMatch [] = None"
| "timestampMatch (c # cs) =
     (case match_at (c # cs) of Some d \<Rightarrow> Some d | None \<Rightarrow> timestampMatch cs)"

definition verifyQCHAINSignature :: "jsval \<Rightarrow> string \<Rightarrow> bool" where
  "verifyQCHAINSignature data signature =
     (case timestampMatch signature of
        None \<Rightarrow> False
      | Some timestamp \<Rightarrow>
          let hash = sha256 (encode (stringify_text data @ timestamp));
              hashHex = toHex hash;
              expectedSignature = ''QS-'' @ take 16 hashHex @ ''-'' @ timestamp
          in signature = expectedSignature)"

section \<open>The synchronisation pass of the offline stress test\<close>

text \<open>
  \<^verbatim>\<open>simulateSync(metrics)\<close> sets the browser online, reads the stored logs and, for each
  of them, waits a moment (the "merge") and counts it in \<^verbatim>\<open>metrics.syncedOperations\<close>.
  The measured latencies are wall-clock readings and are left out.
\<close>

record sync_metrics =
  offlineOperations :: nat
  syncedOperations :: nat

fun sync_loop :: "nat \<Rightarrow> jsval list \<Rightarrow> sync_metrics \<times> state \<Rightarrow> sync_metrics \<times> state" where
  "sync_loop i [] ms = ms"
| "sync_loop i (queued # rest) (metrics, s) =
     sync_loop (Suc i) rest
       (metrics\<lparr>syncedOperations := syncedOperations metrics + 1\<rparr>,
        s\<lparr>events := events s @ [Merge i]\<rparr>)"

definition simulateSync :: "sync_metrics \<Rightarrow> state \<Rightarrow> sync_metrics \<times> state" where
  "simulateSync metrics s =
     (let s = s\<lparr>onLine := True\<rparr>;
          queuedLogs = getQCHAINLogs s
      in sync_loop 0 queuedLogs (metrics, s))"

section \<open>Specification-level notions\<close>

text \<open>
  The two input conditions. \<open>valid_input\<close> is the negation of the guard of
  \<^verbatim>\<open>logQCHAIN\<close>: both required fields are truthy (a non-empty string is). The event
  record's \<^verbatim>\<open>metrics\<close> is a mapping when it is there at all: \<open>well_typed_metrics\<close>
  admits an object, an array, or anything falsy (which \<^verbatim>\<open>logQCHAIN\<close> replaces by a
  fresh object); what it leaves out is a truthy primitive.
\<close>

definition valid_input :: "jsobj \<Rightarrow> bool" where
  "valid_input data = (truthy (get data ''event'') \<and> truthy (get data ''txId''))"

definition well_typed_metrics :: "jsobj \<Rightarrow> bool" where
  "well_typed_metrics data =
     (case get data ''metrics'' of Obj ps \<Rightarrow> True | Arr xs ps \<Rightarrow> True | v \<Rightarrow> \<not> truthy v)"

text \<open>
  The closed form of what a successful call does: the caller's object once the defaults
  are filled in, the record that is stored and sent, and the effects of the call in
  order. \<open>logQCHAIN_valid\<close> below proves that \<open>logQCHAIN\<close> computes exactly these.
\<close>

definition default_metrics :: "jsval \<Rightarrow> jsval" where
  "default_metrics m =
     (if \<not> truthy m then Obj [(''compliance'', Str ''100%'')]
      else case m of
             Obj ps \<Rightarrow> (if truthy (get ps ''compliance'') then Obj ps
                        else Obj (put ps ''compliance'' (Str ''100%'')))
           | Arr xs ps \<Rightarrow> (if truthy (get ps ''compliance'') then Arr xs ps
                           else Arr xs (put ps ''compliance'' (Str ''100%'')))
           | _ \<Rightarrow> m)"

definition with_defaults :: "env \<Rightarrow> jsobj \<Rightarrow> jsobj" where
  "with_defaults e data =
     (let d1 = (if truthy (get data ''timestamp'') then data
                else put data ''timestamp'' (Str (isoNow e)));
          d2 = (if get d1 ''interplanetary'' = Undefined
                then put d1 ''interplanetary'' (Boolean True) else d1)
      in put d2 ''metrics'' (default_metrics (get data ''metrics'')))"

definition signed_record :: "env \<Rightarrow> jsobj \<Rightarrow> jsval" where
  "signed_record e data =
     Obj (put (with_defaults e data) ''signature''
            (Str (createQuantumSignature e (Obj (with_defaults e data)))))"

definition effects :: "env \<Rightarrow> jsobj \<Rightarrow> state \<Rightarrow> event list" where
  "effects e data s =
     [SetItem (stored_form (getQCHAINLogs s @ [signed_record e data]))] @
     (if onLine s
      then Transmission (signed_record e data) #
           (if sinkFails e then [ConsoleError]
            else if truthy (get (with_defaults e data) ''interplanetary'') then [Timeout 240]
            else [])
      else [])"

text \<open>
  A run of calls one after the other, each with its own clock reading, as the loops of
  the stress tests make them (a rejected call is caught there and the loop goes on).
\<close>

fun logAll :: "(env \<times> jsobj) list \<Rightarrow> state \<Rightarrow> state" where
  "logAll [] s = s"
| "logAll ((e, data) # rest) s = logAll rest (snd (snd (logQCHAIN e data s)))"

text \<open>
  The part of a signature that depends on the content, as \<^verbatim>\<open>verifyQCHAINSignature\<close>
  recomputes it: \<^verbatim>\<open>hashHex.substring(0, 16)\<close>.
\<close>

definition digest16 :: "jsval \<Rightarrow> string \<Rightarrow> string" where
  "digest16 data timestamp = take 16 (toHex (sha256 (encode (stringify_text data @ timestamp))))"

section \<open>Concrete inputs\<close>

definition env0 :: env where
  "env0 = \<lparr>dateNow = 1700000000000, isoNow = ''2023-11-14T22:13:20.000Z'',
           backgroundSync = False, sinkFails = False\<rparr>"

definition faulty_env :: env where
  "faulty_env = env0\<lparr>sinkFails := True\<rparr>"

definition offline0 :: state where
  "offline0 = \<lparr>onLine = False, localStorage = None, events = [], syncRequests = 0\<rparr>"

definition online0 :: state where
  "online0 = \<lparr>onLine = True, localStorage = None, events = [], syncRequests = 0\<rparr>"

definition boot_event :: jsobj where
  "boot_event = [(''event'', Str ''boot''), (''txId'', Str ''TX-1'')]"

definition nan_event :: jsobj where
  "nan_event = [(''event'', Str ''sync''), (''txId'', Str ''TX-2''),
                (''metrics'', Obj [(''latency'', Number NaN)])]"

definition null_metrics :: jsval where
  "null_metrics = Obj [(''latency'', Null), (''compliance'', Str ''100%'')]"

definition coherence_event :: jsobj where
  "coherence_event = [(''event'', Str ''breath''), (''txId'', Str ''TX-3''),
                      (''metrics'', Obj [(''phiCoherence'', Number (Finite 1))])]"

definition fast_event :: jsobj where
  "fast_event = [(''event'', Str ''e''), (''txId'', Str ''t''), (''metrics'', Str ''fast'')]"

definition count_event :: jsobj where
  "count_event = [(''event'', Str ''count''), (''txId'', Str ''TX-4''),
                  (''metrics'', Number (Finite 7))]"

definition second_event :: jsobj where
  "second_event = [(''event'', Str ''sync''), (''txId'', Str ''TX-2''), (''note'', Undefined)]"

section \<open>Properties of the building blocks\<close>

lemma get_put_same: "get (put ps k v) k = v"
  by (induction ps) (auto simp: get_def)

lemma get_put_other: "k' \<noteq> k \<Longrightarrow> get (put ps k v) k' = get ps k'"
  by (induction ps) (auto simp: get_def)

lemma is_hex_hexdig: "is_hex (hexdig n)"
  unfolding is_hex_def hexdig_def by (rule nth_mem) simp

lemma is_digit_decdig: "is_digit (decdig n)"
  unfolding is_digit_def decdig_def by (rule nth_mem) simp

lemma string_of_nat_digits: "list_all is_digit (string_of_nat n)"
  by (induction n rule: string_of_nat.induct)
     (subst string_of_nat.simps, simp add: is_digit_decdig)

lemma string_of_nat_nonempty: "string_of_nat n \<noteq> []"
  by (subst string_of_nat.simps) simp

lemma length_word_bytes: "length (word_bytes w) = 4"
  by (simp add: word_bytes_def)

lemma length_sha256: "length (sha256 m) = 32"
  by (simp add: sha256_def length_word_bytes split: prod.splits)

lemma length_toHex: "length (toHex bs) = 2 * length bs"
  by (induction bs) (simp_all add: toHex_def byte_hex_def)

lemma toHex_is_hex: "list_all is_hex (toHex bs)"
  by (induction bs) (simp_all add: toHex_def byte_hex_def is_hex_hexdig)

lemma digest_prefix_length: "length (take 16 (toHex (sha256 m))) = 16"
  by (simp add: length_toHex length_sha256)

lemma digest_prefix_hex: "list_all is_hex (take 16 (toHex (sha256 m)))"
  using toHex_is_hex [of "sha256 m"] by (simp add: list_all_iff) (meson in_set_takeD)

lemma not_hex_dash: "\<not> is_hex (CHR ''-'')"
  by (simp add: is_hex_def)

lemma match_at_shape:
  assumes "h \<noteq> []" "list_all is_hex h" "d \<noteq> []" "list_all is_digit d"
    and "post = [] \<or> \<not> is_digit (hd post)"
  shows "match_at (''QS-'' @ h @ ''-'' @ d @ post) = Some d"
proof -
  have th: "takeWhile is_hex (h @ CHR ''-'' # d @ post) = h"
    using assms(2) by (simp add: takeWhile_append2 list_all_iff not_hex_dash)
  have dh: "dropWhile is_hex (h @ CHR ''-'' # d @ post) = CHR ''-'' # d @ post"
    using assms(2) by (simp add: dropWhile_append2 list_all_iff not_hex_dash)
  have td: "takeWhile is_digit (d @ post) = d"
    using assms(4,5) by (cases post) (simp_all add: takeWhile_append2 list_all_iff)
  show ?thesis
    using assms(1,3) by (simp add: match_at_def th dh td)
qed

lemma timestampMatch_shape:
  assumes "h \<noteq> []" "list_all is_hex h" "d \<noteq> []" "list_all is_digit d"
  shows "timestampMatch (''QS-'' @ h @ ''-'' @ d) = Some d"
  using match_at_shape [OF assms, of "[]"] by simp


lemma match_at_prefix:
  assumes "h \<noteq> []" "list_all is_hex h" "d \<noteq> []" "list_all is_digit d"
  shows "match_at (''QS-'' @ h @ ''-'' @ d @ post) = Some (d @ takeWhile is_digit post)"
proof -
  have th: "takeWhile is_hex (h @ CHR ''-'' # d @ post) = h"
    using assms(2) by (simp add: list_all_iff not_hex_dash)
  have dh: "dropWhile is_hex (h @ CHR ''-'' # d @ post) = CHR ''-'' # d @ post"
    using assms(2) by (simp add: list_all_iff not_hex_dash)
  have td: "takeWhile is_digit (d @ post) = d @ takeWhile is_digit post"
    using assms(4) by (simp add: list_all_iff)
  show ?thesis
    using assms(1,3) by (simp add: match_at_def th dh td)
qed

lemma match_at_sound:
  assumes "match_at s = Some d"
  shows "\<exists>h post. s = ''QS-'' @ h @ ''-'' @ d @ post \<and> h \<noteq> [] \<and> list_all is_hex h
           \<and> d \<noteq> [] \<and> list_all is_digit d"
proof -
  define r where "r = drop 3 s"
  define hx where "hx = takeWhile is_hex r"
  define rest where "rest = dropWhile is_hex r"
  define ds where "ds = drop 1 rest"
  define post where "post = dropWhile is_digit ds"
  from assms have p: "take 3 s = ''QS-''"
    by (simp add: match_at_def split: if_splits)
  from assms p have h: "hx \<noteq> []" and m: "take 1 rest = ''-''"
    by (simp_all add: match_at_def r_def rest_def hx_def Let_def split: if_splits)
  from assms p h m have d: "d = takeWhile is_digit ds" and dn: "d \<noteq> []"
    by (auto simp add: match_at_def r_def rest_def hx_def ds_def Let_def split: if_splits)
  have 1: "s = ''QS-'' @ r"
    unfolding r_def p [symmetric] by (rule append_take_drop_id [symmetric])
  have 2: "r = hx @ rest"
    by (simp add: hx_def rest_def)
  have 3: "rest = ''-'' @ ds"
    unfolding ds_def m [symmetric] by (rule append_take_drop_id [symmetric])
  have 4: "ds = d @ post"
    by (simp add: d post_def)
  have "s = ''QS-'' @ hx @ ''-'' @ d @ post"
    by (simp add: 1 2 3 4)
  moreover have "list_all is_hex hx"
    unfolding hx_def list_all_iff by (meson set_takeWhileD)
  moreover have "list_all is_digit d"
    unfolding d list_all_iff by (meson set_takeWhileD)
  ultimately show ?thesis using h dn by blast
qed

lemma timestampMatch_sound:
  "timestampMatch s = Some d \<Longrightarrow>
     \<exists>pre h post. s = pre @ ''QS-'' @ h @ ''-'' @ d @ post \<and> h \<noteq> [] \<and> list_all is_hex h
        \<and> d \<noteq> [] \<and> list_all is_digit d"
proof (induction s)
  case Nil
  then show ?case by simp
next
  case (Cons c cs)
  show ?case
  proof (cases "match_at (c # cs)")
    case (Some d')
    with Cons.prems have "d' = d" by simp
    with Some obtain h post where
      "c # cs = ''QS-'' @ h @ ''-'' @ d @ post \<and> h \<noteq> [] \<and> list_all is_hex h
         \<and> d \<noteq> [] \<and> list_all is_digit d"
      using match_at_sound by blast
    then have "c # cs = [] @ ''QS-'' @ h @ ''-'' @ d @ post \<and> h \<noteq> [] \<and> list_all is_hex h
         \<and> d \<noteq> [] \<and> list_all is_digit d" by simp
    then show ?thesis by blast
  next
    case None
    with Cons.prems have "timestampMatch cs = Some d" by simp
    then obtain pre h post where
      "cs = pre @ ''QS-'' @ h @ ''-'' @ d @ post \<and> h \<noteq> [] \<and> list_all is_hex h
         \<and> d \<noteq> [] \<and> list_all is_digit d"
      using Cons.IH by blast
    then have "c # cs = (c # pre) @ ''QS-'' @ h @ ''-'' @ d @ post \<and> h \<noteq> [] \<and> list_all is_hex h
         \<and> d \<noteq> [] \<and> list_all is_digit d" by simp
    then show ?thesis by blast
  qed
qed

lemma timestampMatch_complete:
  assumes "h \<noteq> []" "list_all is_hex h" "d \<noteq> []" "list_all is_digit d"
  shows "timestampMatch (pre @ ''QS-'' @ h @ ''-'' @ d @ post) \<noteq> None"
proof (induction pre)
  case Nil
  show ?case using match_at_prefix [OF assms, of post] by simp
next
  case (Cons c pre)
  then show ?case by (simp split: option.splits)
qed

lemma timestampMatch_None_iff:
  "timestampMatch s = None \<longleftrightarrow>
     \<not> (\<exists>pre h d post. s = pre @ ''QS-'' @ h @ ''-'' @ d @ post \<and> h \<noteq> [] \<and> list_all is_hex h
          \<and> d \<noteq> [] \<and> list_all is_digit d)"
proof
  assume a: "timestampMatch s = None"
  show "\<not> (\<exists>pre h d post. s = pre @ ''QS-'' @ h @ ''-'' @ d @ post \<and> h \<noteq> [] \<and> list_all is_hex h
          \<and> d \<noteq> [] \<and> list_all is_digit d)"
  proof
    assume "\<exists>pre h d post. s = pre @ ''QS-'' @ h @ ''-'' @ d @ post \<and> h \<noteq> [] \<and> list_all is_hex h
          \<and> d \<noteq> [] \<and> list_all is_digit d"
    then obtain pre h d post where s: "s = pre @ ''QS-'' @ h @ ''-'' @ d @ post"
      and hd: "h \<noteq> []" "list_all is_hex h" "d \<noteq> []" "list_all is_digit d"
      by blast
    from timestampMatch_complete [OF hd, of pre post] a show False
      unfolding s by simp
  qed
next
  assume n: "\<not> (\<exists>pre h d post. s = pre @ ''QS-'' @ h @ ''-'' @ d @ post \<and> h \<noteq> [] \<and> list_all is_hex h
          \<and> d \<noteq> [] \<and> list_all is_digit d)"
  show "timestampMatch s = None"
  proof (cases "timestampMatch s")
    case None then show ?thesis .
  next
    case (Some d)
    from timestampMatch_sound [OF Some] n show ?thesis by blast
  qed
qed

lemma signed_text_eq:
  "data \<noteq> Undefined \<Longrightarrow> signed_text data n = stringify_text data @ string_of_nat n"
  by (cases data) (simp_all add: signed_text_def stringify_text_def)

lemma timestampMatch_created:
  "timestampMatch (createQuantumSignature e data) = Some (string_of_nat (dateNow e))"
proof -
  let ?h = "take 16 (toHex (sha256 (encode (signed_text data (dateNow e)))))"
  have "length ?h = 16" by (rule digest_prefix_length)
  then have h: "?h \<noteq> []" by auto
  show ?thesis
    unfolding createQuantumSignature_def Let_def
    by (rule timestampMatch_shape [OF h digest_prefix_hex string_of_nat_nonempty string_of_nat_digits])
qed

lemma verify_created:
  assumes "data \<noteq> Undefined"
  shows "verifyQCHAINSignature data' (createQuantumSignature e data) \<longleftrightarrow>
     take 16 (toHex (sha256 (encode (stringify_text data' @ string_of_nat (dateNow e))))) =
     take 16 (toHex (sha256 (encode (stringify_text data @ string_of_nat (dateNow e)))))"
proof -
  have "verifyQCHAINSignature data' (createQuantumSignature e data) \<longleftrightarrow>
     createQuantumSignature e data = ''QS-'' @
     take 16 (toHex (sha256 (encode (stringify_text data' @ string_of_nat (dateNow e))))) @ ''-'' @ string_of_nat (dateNow e)"
    by (simp only: verifyQCHAINSignature_def timestampMatch_created option.case Let_def)
  also have "\<dots> \<longleftrightarrow> take 16 (toHex (sha256 (encode (stringify_text data' @ string_of_nat (dateNow e))))) =
     take 16 (toHex (sha256 (encode (stringify_text data @ string_of_nat (dateNow e)))))"
    unfolding createQuantumSignature_def Let_def signed_text_eq [OF assms]
    by (simp only: same_append_eq append_same_eq) (rule eq_commute)
  finally show ?thesis .
qed

lemma put_put: "put (put ps k v) k w = put ps k w"
  by (induction ps) auto

lemma logQCHAIN_invalid:
  "\<not> valid_input data \<Longrightarrow>
     logQCHAIN e data s = (Inl (Error ''QCHAIN log requires event and txId fields''), data, s)"
  by (auto simp: logQCHAIN_def valid_input_def)

lemma assign_default:
  assumes "\<not> truthy m \<or> (\<exists>ps. m = Obj ps) \<or> (\<exists>xs ps. m = Arr xs ps)"
  shows "(if \<not> truthy (get_prop (if truthy m then m else Obj []) ''compliance'')
          then assign_prop (if truthy m then m else Obj []) ''compliance'' (Str ''100%'')
          else Inr (if truthy m then m else Obj [])) = Inr (default_metrics m)"
  using assms by (cases m) (auto simp: default_metrics_def get_def)

lemma logQCHAIN_steps:
  assumes v: "valid_input data"
  shows "logQCHAIN e data s =
     (let d1 = (if \<not> truthy (get data ''timestamp'')
                then put data ''timestamp'' (Str (isoNow e)) else data);
          d2 = (if get d1 ''interplanetary'' = Undefined
                then put d1 ''interplanetary'' (Boolean True) else d1);
          d3 = (if \<not> truthy (get d2 ''metrics'') then put d2 ''metrics'' (Obj []) else d2)
      in case (if \<not> truthy (get_prop (get d3 ''metrics'') ''compliance'')
              then assign_prop (get d3 ''metrics'') ''compliance'' (Str ''100%'')
              else Inr (get d3 ''metrics'')) of
          Inl err \<Rightarrow> (Inl err, d3, s)
        | Inr metrics \<Rightarrow>
            let d4 = put d3 ''metrics'' metrics;
                signature = createQuantumSignature e (Obj d4);
                logData = Obj (put d4 ''signature'' (Str signature));
                s1 = storeLocalLog e logData s;
                s2 = (if onLine s1
                     then (case transmitLog e logData s1 of
                             (Inl error, s') \<Rightarrow> s'\<lparr>events := events s' @ [ConsoleError]\<rparr>
                           | (Inr sent, s') \<Rightarrow> s')
                     else s1)
            in (Inr \<lparr>r_status = ''logged'', r_txId = get d4 ''txId'', r_signature = signature\<rparr>,
                d4, s2))"
proof -
  from v have c: "(\<not> truthy (get data ''event'') \<or> \<not> truthy (get data ''txId'')) = False"
    by (simp add: valid_input_def)
  show ?thesis
    unfolding logQCHAIN_def Let_def c by (simp only: if_False)
qed

lemma logQCHAIN_valid:
  assumes v: "valid_input data" and w: "well_typed_metrics data"
  shows "logQCHAIN e data s =
     (Inr \<lparr>r_status = ''logged'', r_txId = get data ''txId'',
           r_signature = createQuantumSignature e (Obj (with_defaults e data))\<rparr>,
      with_defaults e data,
      s\<lparr>localStorage := Some (stored_form (getQCHAINLogs s @ [signed_record e data])),
        events := events s @ effects e data s,
        syncRequests := (if backgroundSync e then syncRequests s + 1 else syncRequests s)\<rparr>)"
proof -
  define d1 where "d1 = (if \<not> truthy (get data ''timestamp'')
                then put data ''timestamp'' (Str (isoNow e)) else data)"
  define d2 where "d2 = (if get d1 ''interplanetary'' = Undefined
                then put d1 ''interplanetary'' (Boolean True) else d1)"
  define d3 where "d3 = (if \<not> truthy (get d2 ''metrics'') then put d2 ''metrics'' (Obj []) else d2)"
  define m where "m = get data ''metrics''"
  define F :: "jsobj \<Rightarrow> (error + log_result) \<times> jsobj \<times> state" where "F = (\<lambda>d4.
            let signature = createQuantumSignature e (Obj d4);
                logData = Obj (put d4 ''signature'' (Str signature));
                s1 = storeLocalLog e logData s;
                s2 = (if onLine s1
                     then (case transmitLog e logData s1 of
                             (Inl error, s') \<Rightarrow> s'\<lparr>events := events s' @ [ConsoleError]\<rparr>
                           | (Inr sent, s') \<Rightarrow> s')
                     else s1)
            in (Inr \<lparr>r_status = ''logged'', r_txId = get d4 ''txId'', r_signature = signature\<rparr>,
                d4, s2))"
  have m2: "get d2 ''metrics'' = m"
    by (simp add: d2_def d1_def m_def get_put_other)
  have m3: "get d3 ''metrics'' = (if truthy m then m else Obj [])"
    by (simp add: d3_def m2 get_put_same)
  from w have wm: "\<not> truthy m \<or> (\<exists>ps. m = Obj ps) \<or> (\<exists>xs ps. m = Arr xs ps)"
    by (auto simp: well_typed_metrics_def m_def split: jsval.splits)
  have d12: "d2 = (let d1 = (if truthy (get data ''timestamp'') then data
                else put data ''timestamp'' (Str (isoNow e)))
            in if get d1 ''interplanetary'' = Undefined
                then put d1 ''interplanetary'' (Boolean True) else d1)"
    by (simp add: d2_def d1_def)
  have d4: "put d3 ''metrics'' (default_metrics m) = with_defaults e data"
    unfolding with_defaults_def m_def [symmetric] Let_def d12 [unfolded Let_def, symmetric]
    by (simp add: d3_def put_put)
  have tx: "get (with_defaults e data) ''txId'' = get data ''txId''"
    by (simp add: with_defaults_def Let_def get_put_other)
  have ip: "get_prop (signed_record e data) ''interplanetary''
              = get (with_defaults e data) ''interplanetary''"
    by (simp add: signed_record_def get_put_other)
  have "logQCHAIN e data s =
     (case (if \<not> truthy (get_prop (get d3 ''metrics'') ''compliance'')
              then assign_prop (get d3 ''metrics'') ''compliance'' (Str ''100%'')
              else Inr (get d3 ''metrics'')) of
          Inl err \<Rightarrow> (Inl err, d3, s)
        | Inr metrics \<Rightarrow> F (put d3 ''metrics'' metrics))"
    unfolding logQCHAIN_steps [OF v] d3_def d2_def d1_def F_def Let_def by (rule refl)
  also have "\<dots> = F (with_defaults e data)"
    unfolding m3 assign_default [OF wm] by (simp only: sum.case d4)
  also have "\<dots> = (Inr \<lparr>r_status = ''logged'', r_txId = get data ''txId'',
           r_signature = createQuantumSignature e (Obj (with_defaults e data))\<rparr>,
      with_defaults e data,
      s\<lparr>localStorage := Some (stored_form (getQCHAINLogs s @ [signed_record e data])),
        events := events s @ effects e data s,
        syncRequests := (if backgroundSync e then syncRequests s + 1 else syncRequests s)\<rparr>)"
    unfolding F_def Let_def signed_record_def [symmetric] tx
    by (simp add: storeLocalLog_def transmitLog_def effects_def ip Let_def)
  finally show ?thesis .
qed

lemma logQCHAIN_ill_typed:
  assumes v: "valid_input data" and w: "\<not> well_typed_metrics data"
  shows "fst (logQCHAIN e data s) = Inl TypeError \<and> snd (snd (logQCHAIN e data s)) = s"
proof -
  define d1 where "d1 = (if \<not> truthy (get data ''timestamp'')
                then put data ''timestamp'' (Str (isoNow e)) else data)"
  define d2 where "d2 = (if get d1 ''interplanetary'' = Undefined
                then put d1 ''interplanetary'' (Boolean True) else d1)"
  define d3 where "d3 = (if \<not> truthy (get d2 ''metrics'') then put d2 ''metrics'' (Obj []) else d2)"
  define m where "m = get data ''metrics''"
  define F :: "jsobj \<Rightarrow> (error + log_result) \<times> jsobj \<times> state" where "F = (\<lambda>d4.
            let signature = createQuantumSignature e (Obj d4);
                logData = Obj (put d4 ''signature'' (Str signature));
                s1 = storeLocalLog e logData s;
                s2 = (if onLine s1
                     then (case transmitLog e logData s1 of
                             (Inl error, s') \<Rightarrow> s'\<lparr>events := events s' @ [ConsoleError]\<rparr>
                           | (Inr sent, s') \<Rightarrow> s')
                     else s1)
            in (Inr \<lparr>r_status = ''logged'', r_txId = get d4 ''txId'', r_signature = signature\<rparr>,
                d4, s2))"
  have m2: "get d2 ''metrics'' = m"
    by (simp add: d2_def d1_def m_def get_put_other)
  from w have wm: "truthy m" "assign_prop m ''compliance'' (Str ''100%'') = Inl TypeError"
    "get_prop m ''compliance'' = Undefined"
    by (auto simp: well_typed_metrics_def m_def split: jsval.splits)
  have m3: "get d3 ''metrics'' = m"
    by (simp add: d3_def m2 wm)
  have "logQCHAIN e data s =
     (case (if \<not> truthy (get_prop (get d3 ''metrics'') ''compliance'')
              then assign_prop (get d3 ''metrics'') ''compliance'' (Str ''100%'')
              else Inr (get d3 ''metrics'')) of
          Inl err \<Rightarrow> (Inl err, d3, s)
        | Inr metrics \<Rightarrow> F (put d3 ''metrics'' metrics))"
    unfolding logQCHAIN_steps [OF v] d3_def d2_def d1_def F_def Let_def by (rule refl)
  also have "\<dots> = (Inl TypeError, d3, s)"
    unfolding m3 wm by simp
  finally show ?thesis by simp
qed

lemma logQCHAIN_Inr_iff:
  "(\<exists>r. fst (logQCHAIN e data s) = Inr r) \<longleftrightarrow> valid_input data \<and> well_typed_metrics data"
proof (cases "valid_input data")
  case False
  then show ?thesis by (simp add: logQCHAIN_invalid)
next
  case True
  show ?thesis
  proof (cases "well_typed_metrics data")
    case True
    with \<open>valid_input data\<close> show ?thesis by (simp add: logQCHAIN_valid)
  next
    case False
    with \<open>valid_input data\<close> show ?thesis by (simp add: logQCHAIN_ill_typed)
  qed
qed

lemma json_roundtrip_defined: "v \<noteq> Undefined \<Longrightarrow> json_roundtrip v \<noteq> Undefined"
  by (cases v) (auto split: jsnum.splits)

lemma json_roundtrip_idem: "json_roundtrip (json_roundtrip v) = json_roundtrip v"
proof (induction v rule: json_roundtrip.induct)
  case (4 n)
  then show ?case by (cases n) simp_all
next
  case (6 xs)
  then show ?case by (auto simp: json_roundtrip_defined)
next
  case (7 ps)
  have "filter (\<lambda>p. snd p \<noteq> Undefined)
          (map (\<lambda>p. (fst p, json_roundtrip (snd p))) (filter (\<lambda>p. snd p \<noteq> Undefined) ps))
        = map (\<lambda>p. (fst p, json_roundtrip (snd p))) (filter (\<lambda>p. snd p \<noteq> Undefined) ps)"
    by (auto simp: filter_id_conv json_roundtrip_defined)
  with 7 show ?case by auto
qed simp_all

lemma stored_form_idem: "stored_form (stored_form logs) = stored_form logs"
  by (auto simp: stored_form_def json_roundtrip_idem json_roundtrip_defined)

lemma stored_form_append: "stored_form (xs @ ys) = stored_form xs @ stored_form ys"
  by (simp add: stored_form_def)

lemma stored_form_record: "stored_form [Obj ps] = [json_roundtrip (Obj ps)]"
  by (simp add: stored_form_def)

lemma length_stored_form: "length (stored_form logs) = length logs"
  by (simp add: stored_form_def)

lemma stored_form_snoc:
  "stored_form (logs @ [Obj ps]) = stored_form logs @ [json_roundtrip (Obj ps)]"
  by (simp add: stored_form_def)

lemma stored_form_roundtrip: "stored_form [json_roundtrip (Obj ps)] = [json_roundtrip (Obj ps)]"
proof -
  have "json_roundtrip (Obj ps) \<noteq> Undefined"
    by (rule json_roundtrip_defined) simp
  then show ?thesis
    unfolding stored_form_def by (simp add: json_roundtrip_idem del: json_roundtrip.simps)
qed

lemma sync_loop_eq:
  "sync_loop i logs (metrics, s) =
     (metrics\<lparr>syncedOperations := syncedOperations metrics + length logs\<rparr>,
      s\<lparr>events := events s @ map Merge [i..<i + length logs]\<rparr>)"
proof (induction logs arbitrary: i metrics s)
  case Nil
  then show ?case by simp
next
  case (Cons x xs)
  have "[i..<i + length (x # xs)] = i # [Suc i..<Suc i + length xs]"
    by (simp add: upt_rec)
  with Cons show ?case by simp
qed

lemma simulateSync_eq:
  "simulateSync metrics s =
     (metrics\<lparr>syncedOperations := syncedOperations metrics + length (getQCHAINLogs s)\<rparr>,
      s\<lparr>onLine := True, events := events s @ map Merge [0..<length (getQCHAINLogs s)]\<rparr>)"
  by (simp add: simulateSync_def Let_def sync_loop_eq getQCHAINLogs_def)

lemma logs_after_logQCHAIN:
  assumes "valid_input data" "well_typed_metrics data"
    and "stored_form (getQCHAINLogs s) = getQCHAINLogs s"
  shows "getQCHAINLogs (snd (snd (logQCHAIN e data s)))
           = getQCHAINLogs s @ [json_roundtrip (signed_record e data)]"
  using assms
  by (simp add: logQCHAIN_valid getQCHAINLogs_def stored_form_append)
     (simp add: signed_record_def stored_form_record)

lemma logs_after_logAll:
  assumes "list_all (\<lambda>(e, data). valid_input data \<and> well_typed_metrics data) inputs"
    and "stored_form (getQCHAINLogs s) = getQCHAINLogs s"
  shows "getQCHAINLogs (logAll inputs s)
           = getQCHAINLogs s @ map (\<lambda>(e, data). json_roundtrip (signed_record e data)) inputs"
  using assms
proof (induction inputs arbitrary: s)
  case Nil
  then show ?case by simp
next
  case (Cons p inputs)
  obtain e data where p: "p = (e, data)" by (cases p)
  from Cons.prems p have v: "valid_input data" "well_typed_metrics data" by simp_all
  let ?s = "snd (snd (logQCHAIN e data s))"
  have l: "getQCHAINLogs ?s = getQCHAINLogs s @ [json_roundtrip (signed_record e data)]"
    by (rule logs_after_logQCHAIN [OF v Cons.prems(2)])
  have n: "stored_form (getQCHAINLogs ?s) = getQCHAINLogs ?s"
    unfolding l stored_form_append Cons.prems(2) signed_record_def stored_form_roundtrip
    by (rule refl)
  from Cons.prems p have "list_all (\<lambda>(e, data). valid_input data \<and> well_typed_metrics data) inputs"
    by simp
  from Cons.IH [OF this n] show ?case
    by (simp add: p l)
qed

lemma verify_digest16:
  "data \<noteq> Undefined \<Longrightarrow>
   verifyQCHAINSignature data' (createQuantumSignature e data) \<longleftrightarrow>
     digest16 data' (string_of_nat (dateNow e)) = digest16 data (string_of_nat (dateNow e))"
  by (simp add: verify_created digest16_def)

lemma get_with_defaults_other:
  "k \<noteq> ''timestamp'' \<Longrightarrow> k \<noteq> ''interplanetary'' \<Longrightarrow> k \<noteq> ''metrics'' \<Longrightarrow>
     get (with_defaults e data) k = get data k"
  by (simp add: with_defaults_def Let_def get_put_other)

lemma get_with_defaults_metrics:
  "get (with_defaults e data) ''metrics'' = default_metrics (get data ''metrics'')"
  by (simp add: with_defaults_def Let_def get_put_same)

lemma get_with_defaults_timestamp:
  "get (with_defaults e data) ''timestamp'' =
     (if truthy (get data ''timestamp'') then get data ''timestamp'' else Str (isoNow e))"
  by (simp add: with_defaults_def Let_def get_put_other get_put_same)

lemma get_with_defaults_interplanetary:
  "get (with_defaults e data) ''interplanetary'' =
     (if get data ''interplanetary'' = Undefined then Boolean True else get data ''interplanetary'')"
  by (simp add: with_defaults_def Let_def get_put_other get_put_same)

lemma map_of_put_other: "k' \<noteq> k \<Longrightarrow> map_of (put ps k v) k' = map_of ps k'"
  by (induction ps) auto

lemma map_of_with_defaults_other:
  "k \<noteq> ''timestamp'' \<Longrightarrow> k \<noteq> ''interplanetary'' \<Longrightarrow> k \<noteq> ''metrics'' \<Longrightarrow>
     map_of (with_defaults e data) k = map_of data k"
  by (simp add: with_defaults_def Let_def map_of_put_other)

lemma logQCHAIN_success:
  assumes "logQCHAIN e data s = (Inr r, data', s')"
  shows "valid_input data" "well_typed_metrics data" "data' = with_defaults e data"
    "r_signature r = createQuantumSignature e (Obj data')"
    "getQCHAINLogs s' = stored_form (getQCHAINLogs s @ [signed_record e data])"
proof -
  from assms have "\<exists>r. fst (logQCHAIN e data s) = Inr r" by simp
  then show v: "valid_input data" and w: "well_typed_metrics data"
    by (simp_all add: logQCHAIN_Inr_iff)
  from assms show "data' = with_defaults e data"
    "r_signature r = createQuantumSignature e (Obj data')"
    "getQCHAINLogs s' = stored_form (getQCHAINLogs s @ [signed_record e data])"
    unfolding logQCHAIN_valid [OF v w] by (auto simp: getQCHAINLogs_def)
qed

lemma json_escape_a: "concat (map json_escape (replicate n (CHR ''a''))) = replicate n (CHR ''a'')"
  by (induction n) (simp_all add: json_escape_def dquote_def backslash_def)

lemma length_filler_text:
  "length (stringify_text (Obj [(''event'', Str (replicate n (CHR ''a'')))])) = n + 12"
  by (simp add: stringify_text_def quoteJSONString_def json_escape_a)
     (simp add: json_escape_def dquote_def backslash_def)

lemma JSON_stringify_None_iff: "JSON_stringify v = None \<longleftrightarrow> v = Undefined"
  by (cases v) simp_all

lemma JSON_stringify_roundtrip: "JSON_stringify (json_roundtrip v) = JSON_stringify v"
proof (induction v rule: json_roundtrip.induct)
  case (4 n)
  then show ?case by (cases n) simp_all
next
  case (6 xs)
  have "map (\<lambda>x. case JSON_stringify x of None \<Rightarrow> ''null'' | Some t \<Rightarrow> t)
          (map (\<lambda>x. if x = Undefined then Null else json_roundtrip x) xs)
        = map (\<lambda>x. case JSON_stringify x of None \<Rightarrow> ''null'' | Some t \<Rightarrow> t) xs"
    using 6 by (induction xs) auto
  then show ?case by (simp del: map_map)
next
  case (7 ps)
  have "concat (map (\<lambda>p. case JSON_stringify (snd p) of None \<Rightarrow> []
                          | Some t \<Rightarrow> [quoteJSONString (fst p) @ '':'' @ t])
          (map (\<lambda>p. (fst p, json_roundtrip (snd p))) (filter (\<lambda>p. snd p \<noteq> Undefined) ps)))
        = concat (map (\<lambda>p. case JSON_stringify (snd p) of None \<Rightarrow> []
                          | Some t \<Rightarrow> [quoteJSONString (fst p) @ '':'' @ t]) ps)"
    using 7 by (induction ps) (auto split: option.splits)
  then show ?case by (simp del: map_map)
qed simp_all

lemma stringify_text_roundtrip: "stringify_text (json_roundtrip v) = stringify_text v"
  by (simp add: stringify_text_def JSON_stringify_roundtrip del: json_roundtrip.simps)

lemma verify_roundtrip:
  "verifyQCHAINSignature (json_roundtrip v) signature = verifyQCHAINSignature v signature"
  by (simp add: verifyQCHAINSignature_def stringify_text_roundtrip
        del: json_roundtrip.simps split: option.splits)

section \<open>SHA-256 on four records\<close>

text \<open>
  First the digest is evaluated for two texts of one block each: the JSON text of the boot
  event followed by the clock reading of \<open>env0\<close>, that is
  \<^verbatim>\<open>{"event":"boot","txId":"TX-1"}1700000000000\<close>, and the same text with \<^verbatim>\<open>boom\<close> for
  \<^verbatim>\<open>boot\<close>. Bytes, padding, words, message schedule and the 64 rounds are evaluated one
  after the other.
\<close>

text \<open>A rotation of a 32-bit word, as the two shifts that make it.\<close>

lemma rotr32:
  assumes "n < 32"
  shows "word_rotr n (w :: 32 word) = drop_bit n w OR push_bit (32 - n) w"
proof (rule bit_word_eqI)
  fix k assume k: "k < LENGTH(32)"
  show "bit (word_rotr n w) k = bit (drop_bit n w OR push_bit (32 - n) w) k"
  proof (cases "k + n < 32")
    case True
    then have "(k + n) mod 32 = k + n" by simp
    moreover from True have "\<not> 32 - n \<le> k" by simp
    ultimately show ?thesis
      using k by (simp add: bit_simps bit_word_rotr_iff add.commute)
  next
    case False
    then have m: "(k + n) mod 32 = k - (32 - n)"
      using k assms by (simp add: mod_if)
    have "\<not> bit w (n + k)"
      using False bit_imp_le_length [of w "n + k"] by (auto simp: add.commute)
    moreover from False have "32 - n \<le> k" by simp
    ultimately show ?thesis
      using k m by (simp add: bit_simps bit_word_rotr_iff)
  qed
qed

text \<open>
  One step of the message schedule and one round, with the new words read back as
  numbers below \<open>2 ^ 32\<close>, so that the numerals stay short when the steps are evaluated.
\<close>

lemma schedule_step:
  "0 < n \<Longrightarrow> schedule n w =
     schedule (n - 1) (w @ [word_of_nat (unat (ssig1 (w ! (length w - 2)) + w ! (length w - 7) +
        ssig0 (w ! (length w - 15)) + w ! (length w - 16)))])"
  by (cases n) (simp_all add: Let_def)

lemma sha_round_step:
  "sha_round (a, b, c, d, e, f, g, h) (k, w) =
     (word_of_nat (unat (h + bsig1 e + Ch e f g + k + w + (bsig0 a + Maj a b c))), a, b, c,
      word_of_nat (unat (d + (h + bsig1 e + Ch e f g + k + w))), e, f, g)"
  by (simp add: sha_round_def Let_def)

lemma replicate_12: "replicate 12 x = [x, x, x, x, x, x, x, x, x, x, x, x]"
  by (simp add: eval_nat_numeral)

lemma bytes_boot:
  "encode (stringify_text (Obj boot_event) @ string_of_nat (dateNow env0)) =
     [0x7b, 0x22, 0x65, 0x76, 0x65, 0x6e, 0x74, 0x22, 0x3a, 0x22, 0x62, 0x6f, 0x6f, 0x74, 0x22, 0x2c,
      0x22, 0x74, 0x78, 0x49, 0x64, 0x22, 0x3a, 0x22, 0x54, 0x58, 0x2d, 0x31, 0x22, 0x7d, 0x31, 0x37,
      0x30, 0x30, 0x30, 0x30, 0x30, 0x30, 0x30, 0x30, 0x30, 0x30, 0x30]"
  by (simp add: stringify_text_def encode_def env0_def boot_event_def quoteJSONString_def
        json_escape_def dquote_def backslash_def string_of_nat.simps decdig_def)

lemma block_boot:
  "sha_pad [0x7b, 0x22, 0x65, 0x76, 0x65, 0x6e, 0x74, 0x22, 0x3a, 0x22, 0x62, 0x6f, 0x6f, 0x74, 0x22, 0x2c,
      0x22, 0x74, 0x78, 0x49, 0x64, 0x22, 0x3a, 0x22, 0x54, 0x58, 0x2d, 0x31, 0x22, 0x7d, 0x31, 0x37,
      0x30, 0x30, 0x30, 0x30, 0x30, 0x30, 0x30, 0x30, 0x30, 0x30, 0x30] =
     [0x7b, 0x22, 0x65, 0x76, 0x65, 0x6e, 0x74, 0x22, 0x3a, 0x22, 0x62, 0x6f, 0x6f, 0x74, 0x22, 0x2c,
      0x22, 0x74, 0x78, 0x49, 0x64, 0x22, 0x3a, 0x22, 0x54, 0x58, 0x2d, 0x31, 0x22, 0x7d, 0x31, 0x37,
      0x30, 0x30, 0x30, 0x30, 0x30, 0x30, 0x30, 0x30, 0x30, 0x30, 0x30, 0x80, 0x00, 0x00, 0x00, 0x00,
      0x00, 0x00, 0x00, 0x00, 0x00, 0x00, 0x00, 0x00, 0x00, 0x00, 0x00, 0x00, 0x00, 0x00, 0x01, 0x58]"
  by (simp add: sha_pad_def be_bytes_def upt_conv_Cons replicate_12)

lemma words_boot:
  "be_words [0x7b, 0x22, 0x65, 0x76, 0x65, 0x6e, 0x74, 0x22, 0x3a, 0x22, 0x62, 0x6f, 0x6f, 0x74, 0x22, 0x2c,
      0x22, 0x74, 0x78, 0x49, 0x64, 0x22, 0x3a, 0x22, 0x54, 0x58, 0x2d, 0x31, 0x22, 0x7d, 0x31, 0x37,
      0x30, 0x30, 0x30, 0x30, 0x30, 0x30, 0x30, 0x30, 0x30, 0x30, 0x30, 0x80, 0x00, 0x00, 0x00, 0x00,
      0x00, 0x00, 0x00, 0x00, 0x00, 0x00, 0x00, 0x00, 0x00, 0x00, 0x00, 0x00, 0x00, 0x00, 0x01, 0x58] =
     [0x7b226576, 0x656e7422, 0x3a22626f, 0x6f74222c, 0x22747849, 0x64223a22, 0x54582d31, 0x227d3137,
      0x30303030, 0x30303030, 0x30303080, 0x00000000, 0x00000000, 0x00000000, 0x00000000, 0x00000158]"
  by simp

lemma schedule_boot:
  "schedule 48 [0x7b226576, 0x656e7422, 0x3a22626f, 0x6f74222c, 0x22747849, 0x64223a22, 0x54582d31, 0x227d3137,
      0x30303030, 0x30303030, 0x30303080, 0x00000000, 0x00000000, 0x00000000, 0x00000000, 0x00000158] =
     [0x7b226576, 0x656e7422, 0x3a22626f, 0x6f74222c, 0x22747849, 0x64223a22, 0x54582d31, 0x227d3137,
      0x30303030, 0x30303030, 0x30303080, 0x00000000, 0x00000000, 0x00000000, 0x00000000, 0x00000158,
      0x80c220dd, 0xd7d16aa3, 0xec331b3c, 0x8fbcb6d8, 0xd7fbf9da, 0x9526d410, 0xfe829360, 0xbe58ce00,
      0x8e4fc572, 0xa59994bd, 0xda216c77, 0xd0dbf9f4, 0x30aa721f, 0x827357e8, 0xe5ef2305, 0x72a834d6,
      0xa4346591, 0x71717283, 0x08c1cd0e, 0xa89af0f7, 0xc01ef930, 0x1c5a67e1, 0x39f0cfb2, 0xe722b387,
      0x88b9c8c2, 0x6dd3c382, 0x6ddf95a2, 0xcf98d954, 0x9a33937f, 0x13ce8300, 0x388e53a0, 0xbbf1834a,
      0x4a1e72be, 0x3f7e3716, 0x15f4940b, 0xe8045f26, 0x04bad0b6, 0x49d7d9ab, 0xe7fb2a59, 0x2f6ac713,
      0xb2177623, 0x6b31575e, 0x321638da, 0x5e5fd27a, 0x62249186, 0xe2b87959, 0x25c00cb8, 0x8b40bcb7]"
  by (simp add: schedule_step ssig0_def ssig1_def rotr32)

lemma rounds_boot:
  "foldl sha_round H256 (zip K256 [0x7b226576, 0x656e7422, 0x3a22626f, 0x6f74222c, 0x22747849, 0x64223a22, 0x54582d31, 0x227d3137,
      0x30303030, 0x30303030, 0x30303080, 0x00000000, 0x00000000, 0x00000000, 0x00000000, 0x00000158,
      0x80c220dd, 0xd7d16aa3, 0xec331b3c, 0x8fbcb6d8, 0xd7fbf9da, 0x9526d410, 0xfe829360, 0xbe58ce00,
      0x8e4fc572, 0xa59994bd, 0xda216c77, 0xd0dbf9f4, 0x30aa721f, 0x827357e8, 0xe5ef2305, 0x72a834d6,
      0xa4346591, 0x71717283, 0x08c1cd0e, 0xa89af0f7, 0xc01ef930, 0x1c5a67e1, 0x39f0cfb2, 0xe722b387,
      0x88b9c8c2, 0x6dd3c382, 0x6ddf95a2, 0xcf98d954, 0x9a33937f, 0x13ce8300, 0x388e53a0, 0xbbf1834a,
      0x4a1e72be, 0x3f7e3716, 0x15f4940b, 0xe8045f26, 0x04bad0b6, 0x49d7d9ab, 0xe7fb2a59, 0x2f6ac713,
      0xb2177623, 0x6b31575e, 0x321638da, 0x5e5fd27a, 0x62249186, 0xe2b87959, 0x25c00cb8, 0x8b40bcb7]) =
     (0x17e85e0e, 0x03fe6f2e, 0xc031c9af, 0xc34c2f7c, 0x83176068, 0x1b2e5b98, 0x5160780d, 0x4ef463c3)"
  by (simp add: K256_def H256_def sha_round_step Ch_def Maj_def bsig0_def bsig1_def rotr32)

lemma digest16_boot:
  "digest16 (Obj boot_event) (string_of_nat (dateNow env0)) = ''81f24475bf661db3''"
proof -
  have "sha_block H256 [0x7b, 0x22, 0x65, 0x76, 0x65, 0x6e, 0x74, 0x22, 0x3a, 0x22, 0x62, 0x6f, 0x6f, 0x74, 0x22, 0x2c,
        0x22, 0x74, 0x78, 0x49, 0x64, 0x22, 0x3a, 0x22, 0x54, 0x58, 0x2d, 0x31, 0x22, 0x7d, 0x31, 0x37,
        0x30, 0x30, 0x30, 0x30, 0x30, 0x30, 0x30, 0x30, 0x30, 0x30, 0x30, 0x80, 0x00, 0x00, 0x00, 0x00,
        0x00, 0x00, 0x00, 0x00, 0x00, 0x00, 0x00, 0x00, 0x00, 0x00, 0x00, 0x00, 0x00, 0x00, 0x01, 0x58] =
     (0x81f24475, 0xbf661db3, 0xfca0bd21, 0x689c24b6, 0xd425b2e7, 0xb633c424, 0x70e451b8, 0xaad530dc)"
    unfolding sha_block_def words_boot schedule_boot rounds_boot
    by (simp add: H256_def sha_add_def)
  then show ?thesis
    unfolding digest16_def bytes_boot sha256_def block_boot
    by (simp add: word_bytes_def toHex_def byte_hex_def hexdig_def)
qed

lemma bytes_boom:
  "encode (stringify_text (Obj (put boot_event ''event'' (Str ''boom''))) @ string_of_nat (dateNow env0)) =
     [0x7b, 0x22, 0x65, 0x76, 0x65, 0x6e, 0x74, 0x22, 0x3a, 0x22, 0x62, 0x6f, 0x6f, 0x6d, 0x22, 0x2c,
      0x22, 0x74, 0x78, 0x49, 0x64, 0x22, 0x3a, 0x22, 0x54, 0x58, 0x2d, 0x31, 0x22, 0x7d, 0x31, 0x37,
      0x30, 0x30, 0x30, 0x30, 0x30, 0x30, 0x30, 0x30, 0x30, 0x30, 0x30]"
  by (simp add: stringify_text_def encode_def env0_def boot_event_def quoteJSONString_def
        json_escape_def dquote_def backslash_def string_of_nat.simps decdig_def)

lemma block_boom:
  "sha_pad [0x7b, 0x22, 0x65, 0x76, 0x65, 0x6e, 0x74, 0x22, 0x3a, 0x22, 0x62, 0x6f, 0x6f, 0x6d, 0x22, 0x2c,
      0x22, 0x74, 0x78, 0x49, 0x64, 0x22, 0x3a, 0x22, 0x54, 0x58, 0x2d, 0x31, 0x22, 0x7d, 0x31, 0x37,
      0x30, 0x30, 0x30, 0x30, 0x30, 0x30, 0x30, 0x30, 0x30, 0x30, 0x30] =
     [0x7b, 0x22, 0x65, 0x76, 0x65, 0x6e, 0x74, 0x22, 0x3a, 0x22, 0x62, 0x6f, 0x6f, 0x6d, 0x22, 0x2c,
      0x22, 0x74, 0x78, 0x49, 0x64, 0x22, 0x3a, 0x22, 0x54, 0x58, 0x2d, 0x31, 0x22, 0x7d, 0x31, 0x37,
      0x30, 0x30, 0x30, 0x30, 0x30, 0x30, 0x30, 0x30, 0x30, 0x30, 0x30, 0x80, 0x00, 0x00, 0x00, 0x00,
      0x00, 0x00, 0x00, 0x00, 0x00, 0x00, 0x00, 0x00, 0x00, 0x00, 0x00, 0x00, 0x00, 0x00, 0x01, 0x58]"
  by (simp add: sha_pad_def be_bytes_def upt_conv_Cons replicate_12)

lemma words_boom:
  "be_words [0x7b, 0x22, 0x65, 0x76, 0x65, 0x6e, 0x74, 0x22, 0x3a, 0x22, 0x62, 0x6f, 0x6f, 0x6d, 0x22, 0x2c,
      0x22, 0x74, 0x78, 0x49, 0x64, 0x22, 0x3a, 0x22, 0x54, 0x58, 0x2d, 0x31, 0x22, 0x7d, 0x31, 0x37,
      0x30, 0x30, 0x30, 0x30, 0x30, 0x30, 0x30, 0x30, 0x30, 0x30, 0x30, 0x80, 0x00, 0x00, 0x00, 0x00,
      0x00, 0x00, 0x00, 0x00, 0x00, 0x00, 0x00, 0x00, 0x00, 0x00, 0x00, 0x00, 0x00, 0x00, 0x01, 0x58] =
     [0x7b226576, 0x656e7422, 0x3a22626f, 0x6f6d222c, 0x22747849, 0x64223a22, 0x54582d31, 0x227d3137,
      0x30303030, 0x30303030, 0x30303080, 0x00000000, 0x00000000, 0x00000000, 0x00000000, 0x00000158]"
  by simp

lemma schedule_boom:
  "schedule 48 [0x7b226576, 0x656e7422, 0x3a22626f, 0x6f6d222c, 0x22747849, 0x64223a22, 0x54582d31, 0x227d3137,
      0x30303030, 0x30303030, 0x30303080, 0x00000000, 0x00000000, 0x00000000, 0x00000000, 0x00000158] =
     [0x7b226576, 0x656e7422, 0x3a22626f, 0x6f6d222c, 0x22747849, 0x64223a22, 0x54582d31, 0x227d3137,
      0x30303030, 0x30303030, 0x30303080, 0x00000000, 0x00000000, 0x00000000, 0x00000000, 0x00000158,
      0x80c220dd, 0xd7d16aa3, 0xac30093a, 0x8fb5b6d8, 0xeeca221d, 0x3526d64d, 0xd015bb98, 0xbf8c3200,
      0xdcf77ca3, 0x86164f22, 0x11d88f92, 0xdd1eb877, 0x8b661341, 0x5b180e1a, 0x3bcc5f84, 0x06febf51,
      0xb31253fc, 0xd47de07d, 0xba5bcb8b, 0x15a3c597, 0x0fda46f7, 0x50b3de66, 0x5cc9bd37, 0x8a9a4b04,
      0x60a619b1, 0xb32eb1d4, 0x51772823, 0x929f7063, 0x896f381f, 0x26ea05cd, 0x4e9b8407, 0x25f6a847,
      0xb20a211f, 0x99f434ff, 0x7f76e40b, 0xba328024, 0x168de30c, 0xb9f51d5a, 0x5b29efbd, 0x5286b9d2,
      0xd850c2cc, 0x44f237a5, 0x8e21bfa4, 0xe69d6501, 0x4b4d913c, 0x867cf27c, 0x3cb2aea9, 0x86fa74c3]"
  by (simp add: schedule_step ssig0_def ssig1_def rotr32)

lemma rounds_boom:
  "foldl sha_round H256 (zip K256 [0x7b226576, 0x656e7422, 0x3a22626f, 0x6f6d222c, 0x22747849, 0x64223a22, 0x54582d31, 0x227d3137,
      0x30303030, 0x30303030, 0x30303080, 0x00000000, 0x00000000, 0x00000000, 0x00000000, 0x00000158,
      0x80c220dd, 0xd7d16aa3, 0xac30093a, 0x8fb5b6d8, 0xeeca221d, 0x3526d64d, 0xd015bb98, 0xbf8c3200,
      0xdcf77ca3, 0x86164f22, 0x11d88f92, 0xdd1eb877, 0x8b661341, 0x5b180e1a, 0x3bcc5f84, 0x06febf51,
      0xb31253fc, 0xd47de07d, 0xba5bcb8b, 0x15a3c597, 0x0fda46f7, 0x50b3de66, 0x5cc9bd37, 0x8a9a4b04,
      0x60a619b1, 0xb32eb1d4, 0x51772823, 0x929f7063, 0x896f381f, 0x26ea05cd, 0x4e9b8407, 0x25f6a847,
      0xb20a211f, 0x99f434ff, 0x7f76e40b, 0xba328024, 0x168de30c, 0xb9f51d5a, 0x5b29efbd, 0x5286b9d2,
      0xd850c2cc, 0x44f237a5, 0x8e21bfa4, 0xe69d6501, 0x4b4d913c, 0x867cf27c, 0x3cb2aea9, 0x86fa74c3]) =
     (0x92158a0e, 0x115d468e, 0x670b0d95, 0xd3d4e671, 0x35a5168d, 0xb7d049c7, 0x637fb9cd, 0x065f5c25)"
  by (simp add: K256_def H256_def sha_round_step Ch_def Maj_def bsig0_def bsig1_def rotr32)

lemma digest16_boom:
  "digest16 (Obj (put boot_event ''event'' (Str ''boom''))) (string_of_nat (dateNow env0)) = ''fc1f7075ccc4f513''"
proof -
  have "sha_block H256 [0x7b, 0x22, 0x65, 0x76, 0x65, 0x6e, 0x74, 0x22, 0x3a, 0x22, 0x62, 0x6f, 0x6f, 0x6d, 0x22, 0x2c,
        0x22, 0x74, 0x78, 0x49, 0x64, 0x22, 0x3a, 0x22, 0x54, 0x58, 0x2d, 0x31, 0x22, 0x7d, 0x31, 0x37,
        0x30, 0x30, 0x30, 0x30, 0x30, 0x30, 0x30, 0x30, 0x30, 0x30, 0x30, 0x80, 0x00, 0x00, 0x00, 0x00,
        0x00, 0x00, 0x00, 0x00, 0x00, 0x00, 0x00, 0x00, 0x00, 0x00, 0x00, 0x00, 0x00, 0x00, 0x01, 0x58] =
     (0xfc1f7075, 0xccc4f513, 0xa37a0107, 0x7924dbab, 0x86b3690c, 0x52d5b253, 0x83039378, 0x6240293e)"
    unfolding sha_block_def words_boom schedule_boom rounds_boom
    by (simp add: H256_def sha_add_def)
  then show ?thesis
    unfolding digest16_def bytes_boom sha256_def block_boom
    by (simp add: word_bytes_def toHex_def byte_hex_def hexdig_def)
qed

lemma signature_of_boot_event:
  "createQuantumSignature env0 (Obj boot_event) = ''QS-81f24475bf661db3-1700000000000''"
proof -
  have t: "string_of_nat (dateNow env0) = ''1700000000000''"
    by (simp add: env0_def string_of_nat.simps decdig_def)
  have d: "take 16 (toHex (sha256 (encode (signed_text (Obj boot_event) (dateNow env0)))))
             = ''81f24475bf661db3''"
    using digest16_boot by (simp add: digest16_def signed_text_eq)
  show ?thesis
    unfolding createQuantumSignature_def Let_def d t by simp
qed

text \<open>
  The same for the record that a call for the boot event signs, with the defaults filled
  in, and for the record that the call stores, which has the \<^verbatim>\<open>signature\<close> property as
  well. Their texts take three blocks each.
\<close>

lemma replicate_47: "replicate 47 x = [x, x, x, x, x, x, x, x, x, x, x, x, x, x, x, x, x, x, x, x, x, x, x, x, x, x, x, x, x, x, x, x, x, x, x, x, x, x, x, x, x, x, x, x, x, x, x]"
  by (simp add: eval_nat_numeral)

lemma replicate_63: "replicate 63 x = [x, x, x, x, x, x, x, x, x, x, x, x, x, x, x, x, x, x, x, x, x, x, x, x, x, x, x, x, x, x, x, x, x, x, x, x, x, x, x, x, x, x, x, x, x, x, x, x, x, x, x, x, x, x, x, x, x, x, x, x, x, x, x]"
  by (simp add: eval_nat_numeral)

lemma sha_blocks_step:
  "0 < n \<Longrightarrow> sha_blocks n st m = sha_blocks (n - 1) (sha_block st (take 64 m)) (drop 64 m)"
  by (cases n) simp_all

lemma boot_record:
  "with_defaults env0 boot_event =
     [(''event'', Str ''boot''), (''txId'', Str ''TX-1''),
      (''timestamp'', Str ''2023-11-14T22:13:20.000Z''), (''interplanetary'', Boolean True),
      (''metrics'', Obj [(''compliance'', Str ''100%'')])]"
  by (simp add: with_defaults_def default_metrics_def boot_event_def env0_def get_def Let_def)

lemma bytes_logged:
  "encode (stringify_text (Obj (with_defaults env0 boot_event)) @ string_of_nat (dateNow env0)) =
     [0x7b, 0x22, 0x65, 0x76, 0x65, 0x6e, 0x74, 0x22, 0x3a, 0x22, 0x62, 0x6f, 0x6f, 0x74, 0x22, 0x2c,
      0x22, 0x74, 0x78, 0x49, 0x64, 0x22, 0x3a, 0x22, 0x54, 0x58, 0x2d, 0x31, 0x22, 0x2c, 0x22, 0x74,
      0x69, 0x6d, 0x65, 0x73, 0x74, 0x61, 0x6d, 0x70, 0x22, 0x3a, 0x22, 0x32, 0x30, 0x32, 0x33, 0x2d,
      0x31, 0x31, 0x2d, 0x31, 0x34, 0x54, 0x32, 0x32, 0x3a, 0x31, 0x33, 0x3a, 0x32, 0x30, 0x2e, 0x30,
      0x30, 0x30, 0x5a, 0x22, 0x2c, 0x22, 0x69, 0x6e, 0x74, 0x65, 0x72, 0x70, 0x6c, 0x61, 0x6e, 0x65,
      0x74, 0x61, 0x72, 0x79, 0x22, 0x3a, 0x74, 0x72, 0x75, 0x65, 0x2c, 0x22, 0x6d, 0x65, 0x74, 0x72,
      0x69, 0x63, 0x73, 0x22, 0x3a, 0x7b, 0x22, 0x63, 0x6f, 0x6d, 0x70, 0x6c, 0x69, 0x61, 0x6e, 0x63,
      0x65, 0x22, 0x3a, 0x22, 0x31, 0x30, 0x30, 0x25, 0x22, 0x7d, 0x7d, 0x31, 0x37, 0x30, 0x30, 0x30,
      0x30, 0x30, 0x30, 0x30, 0x30, 0x30, 0x30, 0x30]"
  unfolding boot_record
  by (simp add: stringify_text_def encode_def env0_def quoteJSONString_def
        json_escape_def dquote_def backslash_def string_of_nat.simps decdig_def)

lemma pad_logged:
  "sha_pad [0x7b, 0x22, 0x65, 0x76, 0x65, 0x6e, 0x74, 0x22, 0x3a, 0x22, 0x62, 0x6f, 0x6f, 0x74, 0x22, 0x2c,
      0x22, 0x74, 0x78, 0x49, 0x64, 0x22, 0x3a, 0x22, 0x54, 0x58, 0x2d, 0x31, 0x22, 0x2c, 0x22, 0x74,
      0x69, 0x6d, 0x65, 0x73, 0x74, 0x61, 0x6d, 0x70, 0x22, 0x3a, 0x22, 0x32, 0x30, 0x32, 0x33, 0x2d,
      0x31, 0x31, 0x2d, 0x31, 0x34, 0x54, 0x32, 0x32, 0x3a, 0x31, 0x33, 0x3a, 0x32, 0x30, 0x2e, 0x30,
      0x30, 0x30, 0x5a, 0x22, 0x2c, 0x22, 0x69, 0x6e, 0x74, 0x65, 0x72, 0x70, 0x6c, 0x61, 0x6e, 0x65,
      0x74, 0x61, 0x72, 0x79, 0x22, 0x3a, 0x74, 0x72, 0x75, 0x65, 0x2c, 0x22, 0x6d, 0x65, 0x74, 0x72,
      0x69, 0x63, 0x73, 0x22, 0x3a, 0x7b, 0x22, 0x63, 0x6f, 0x6d, 0x70, 0x6c, 0x69, 0x61, 0x6e, 0x63,
      0x65, 0x22, 0x3a, 0x22, 0x31, 0x30, 0x30, 0x25, 0x22, 0x7d, 0x7d, 0x31, 0x37, 0x30, 0x30, 0x30,
      0x30, 0x30, 0x30, 0x30, 0x30, 0x30, 0x30, 0x30] =
     [0x7b, 0x22, 0x65, 0x76, 0x65, 0x6e, 0x74, 0x22, 0x3a, 0x22, 0x62, 0x6f, 0x6f, 0x74, 0x22, 0x2c,
      0x22, 0x74, 0x78, 0x49, 0x64, 0x22, 0x3a, 0x22, 0x54, 0x58, 0x2d, 0x31, 0x22, 0x2c, 0x22, 0x74,
      0x69, 0x6d, 0x65, 0x73, 0x74, 0x61, 0x6d, 0x70, 0x22, 0x3a, 0x22, 0x32, 0x30, 0x32, 0x33, 0x2d,
      0x31, 0x31, 0x2d, 0x31, 0x34, 0x54, 0x32, 0x32, 0x3a, 0x31, 0x33, 0x3a, 0x32, 0x30, 0x2e, 0x30,
      0x30, 0x30, 0x5a, 0x22, 0x2c, 0x22, 0x69, 0x6e, 0x74, 0x65, 0x72, 0x70, 0x6c, 0x61, 0x6e, 0x65,
      0x74, 0x61, 0x72, 0x79, 0x22, 0x3a, 0x74, 0x72, 0x75, 0x65, 0x2c, 0x22, 0x6d, 0x65, 0x74, 0x72,
      0x69, 0x63, 0x73, 0x22, 0x3a, 0x7b, 0x22, 0x63, 0x6f, 0x6d, 0x70, 0x6c, 0x69, 0x61, 0x6e, 0x63,
      0x65, 0x22, 0x3a, 0x22, 0x31, 0x30, 0x30, 0x25, 0x22, 0x7d, 0x7d, 0x31, 0x37, 0x30, 0x30, 0x30,
      0x30, 0x30, 0x30, 0x30, 0x30, 0x30, 0x30, 0x30, 0x80, 0x00, 0x00, 0x00, 0x00, 0x00, 0x00, 0x00,
      0x00, 0x00, 0x00, 0x00, 0x00, 0x00, 0x00, 0x00, 0x00, 0x00, 0x00, 0x00, 0x00, 0x00, 0x00, 0x00,
      0x00, 0x00, 0x00, 0x00, 0x00, 0x00, 0x00, 0x00, 0x00, 0x00, 0x00, 0x00, 0x00, 0x00, 0x00, 0x00,
      0x00, 0x00, 0x00, 0x00, 0x00, 0x00, 0x00, 0x00, 0x00, 0x00, 0x00, 0x00, 0x00, 0x00, 0x04, 0x40]"
  by (simp add: sha_pad_def be_bytes_def upt_conv_Cons replicate_47)

lemma words_logged_1:
  "be_words [0x7b, 0x22, 0x65, 0x76, 0x65, 0x6e, 0x74, 0x22, 0x3a, 0x22, 0x62, 0x6f, 0x6f, 0x74, 0x22, 0x2c,
      0x22, 0x74, 0x78, 0x49, 0x64, 0x22, 0x3a, 0x22, 0x54, 0x58, 0x2d, 0x31, 0x22, 0x2c, 0x22, 0x74,
      0x69, 0x6d, 0x65, 0x73, 0x74, 0x61, 0x6d, 0x70, 0x22, 0x3a, 0x22, 0x32, 0x30, 0x32, 0x33, 0x2d,
      0x31, 0x31, 0x2d, 0x31, 0x34, 0x54, 0x32, 0x32, 0x3a, 0x31, 0x33, 0x3a, 0x32, 0x30, 0x2e, 0x30] =
     [0x7b226576, 0x656e7422, 0x3a22626f, 0x6f74222c, 0x22747849, 0x64223a22, 0x54582d31, 0x222c2274,
      0x696d6573, 0x74616d70, 0x223a2232, 0x3032332d, 0x31312d31, 0x34543232, 0x3a31333a, 0x32302e30]"
  by simp

lemma schedule_logged_1:
  "schedule 48 [0x7b226576, 0x656e7422, 0x3a22626f, 0x6f74222c, 0x22747849, 0x64223a22, 0x54582d31, 0x222c2274,
      0x696d6573, 0x74616d70, 0x223a2232, 0x3032332d, 0x31312d31, 0x34543232, 0x3a31333a, 0x32302e30] =
     [0x7b226576, 0x656e7422, 0x3a22626f, 0x6f74222c, 0x22747849, 0x64223a22, 0x54582d31, 0x222c2274,
      0x696d6573, 0x74616d70, 0x223a2232, 0x3032332d, 0x31312d31, 0x34543232, 0x3a31333a, 0x32302e30,
      0x84e8342f, 0xdc26efaa, 0xe4c3165c, 0xd2d4baed, 0x076a22ef, 0xcbe33464, 0xc050e9b2, 0x56440722,
      0x64ac73a1, 0xc5152d43, 0x7d7a010d, 0x99dd412f, 0xac3b545e, 0x3d362ef6, 0xbeb330c1, 0xac266e5e,
      0x3e2accd8, 0xb537589a, 0xaddd348b, 0x1cdba2f8, 0x9f92b819, 0x77a0ad34, 0xc74c0e20, 0x2a44c0c1,
      0x7541f33e, 0x007b6ea5, 0x7e7f3d49, 0x91beef5e, 0xfd4f379f, 0x077ea23e, 0x99466e63, 0xab50821c,
      0x2f6c527c, 0xd4e0a254, 0xfe333164, 0xee4bb8f2, 0xf3090f7e, 0x1732fba4, 0xd03550ea, 0x8ae179cf,
      0xde25aff1, 0xe50c72c7, 0xe3bf5852, 0x297ed3e6, 0x300c9e9d, 0xdabc288d, 0x0d74c0e5, 0x04048440]"
  by (simp add: schedule_step ssig0_def ssig1_def rotr32)

lemma rounds_logged_1:
  "foldl sha_round H256 (zip K256 [0x7b226576, 0x656e7422, 0x3a22626f, 0x6f74222c, 0x22747849, 0x64223a22, 0x54582d31, 0x222c2274,
      0x696d6573, 0x74616d70, 0x223a2232, 0x3032332d, 0x31312d31, 0x34543232, 0x3a31333a, 0x32302e30,
      0x84e8342f, 0xdc26efaa, 0xe4c3165c, 0xd2d4baed, 0x076a22ef, 0xcbe33464, 0xc050e9b2, 0x56440722,
      0x64ac73a1, 0xc5152d43, 0x7d7a010d, 0x99dd412f, 0xac3b545e, 0x3d362ef6, 0xbeb330c1, 0xac266e5e,
      0x3e2accd8, 0xb537589a, 0xaddd348b, 0x1cdba2f8, 0x9f92b819, 0x77a0ad34, 0xc74c0e20, 0x2a44c0c1,
      0x7541f33e, 0x007b6ea5, 0x7e7f3d49, 0x91beef5e, 0xfd4f379f, 0x077ea23e, 0x99466e63, 0xab50821c,
      0x2f6c527c, 0xd4e0a254, 0xfe333164, 0xee4bb8f2, 0xf3090f7e, 0x1732fba4, 0xd03550ea, 0x8ae179cf,
      0xde25aff1, 0xe50c72c7, 0xe3bf5852, 0x297ed3e6, 0x300c9e9d, 0xdabc288d, 0x0d74c0e5, 0x04048440]) =
     (0xfb892803, 0xe70ad028, 0x74bbac88, 0xe1f60666, 0x303da7c1, 0xc3ac19dc, 0xa66aa1b1, 0xacbe53fc)"
  by (simp add: K256_def H256_def sha_round_step Ch_def Maj_def bsig0_def bsig1_def rotr32)

lemma block_logged_1:
  "sha_block H256 [0x7b, 0x22, 0x65, 0x76, 0x65, 0x6e, 0x74, 0x22, 0x3a, 0x22, 0x62, 0x6f, 0x6f, 0x74, 0x22, 0x2c,
      0x22, 0x74, 0x78, 0x49, 0x64, 0x22, 0x3a, 0x22, 0x54, 0x58, 0x2d, 0x31, 0x22, 0x2c, 0x22, 0x74,
      0x69, 0x6d, 0x65, 0x73, 0x74, 0x61, 0x6d, 0x70, 0x22, 0x3a, 0x22, 0x32, 0x30, 0x32, 0x33, 0x2d,
      0x31, 0x31, 0x2d, 0x31, 0x34, 0x54, 0x32, 0x32, 0x3a, 0x31, 0x33, 0x3a, 0x32, 0x30, 0x2e, 0x30] =
     (0x65930e6a, 0xa2727ead, 0xb12a9ffa, 0x8745fba0, 0x814bfa40, 0x5eb18268, 0xc5ee7b5c, 0x089f2115)"
  unfolding sha_block_def words_logged_1 schedule_logged_1 rounds_logged_1
  by (simp add: H256_def sha_add_def)

lemma words_logged_2:
  "be_words [0x30, 0x30, 0x5a, 0x22, 0x2c, 0x22, 0x69, 0x6e, 0x74, 0x65, 0x72, 0x70, 0x6c, 0x61, 0x6e, 0x65,
      0x74, 0x61, 0x72, 0x79, 0x22, 0x3a, 0x74, 0x72, 0x75, 0x65, 0x2c, 0x22, 0x6d, 0x65, 0x74, 0x72,
      0x69, 0x63, 0x73, 0x22, 0x3a, 0x7b, 0x22, 0x63, 0x6f, 0x6d, 0x70, 0x6c, 0x69, 0x61, 0x6e, 0x63,
      0x65, 0x22, 0x3a, 0x22, 0x31, 0x30, 0x30, 0x25, 0x22, 0x7d, 0x7d, 0x31, 0x37, 0x30, 0x30, 0x30] =
     [0x30305a22, 0x2c22696e, 0x74657270, 0x6c616e65, 0x74617279, 0x223a7472, 0x75652c22, 0x6d657472,
      0x69637322, 0x3a7b2263, 0x6f6d706c, 0x69616e63, 0x65223a22, 0x31303025, 0x227d7d31, 0x37303030]"
  by simp

lemma schedule_logged_2:
  "schedule 48 [0x30305a22, 0x2c22696e, 0x74657270, 0x6c616e65, 0x74617279, 0x223a7472, 0x75652c22, 0x6d657472,
      0x69637322, 0x3a7b2263, 0x6f6d706c, 0x69616e63, 0x65223a22, 0x31303025, 0x227d7d31, 0x37303030] =
     [0x30305a22, 0x2c22696e, 0x74657270, 0x6c616e65, 0x74617279, 0x223a7472, 0x75652c22, 0x6d657472,
      0x69637322, 0x3a7b2263, 0x6f6d706c, 0x69616e63, 0x65223a22, 0x31303025, 0x227d7d31, 0x37303030,
      0xbf6929aa, 0x6c9c24ff, 0x2c6466ee, 0x0979d70e, 0xe253202d, 0x176b800e, 0x552c353c, 0x7207e4ae,
      0x7bcfdff5, 0xfee66f41, 0x1d685e2b, 0x0d12a23c, 0xe1b29b66, 0xc4fe46a7, 0x1df18dd2, 0xa7af8e52,
      0xb0193201, 0x813f3ef4, 0x61e23c7e, 0xf336ccbc, 0xffba0df1, 0x749303b4, 0xefe46214, 0x1645e17c,
      0xc273b08e, 0xef79e074, 0x903cc2c9, 0x5008728e, 0x161f59a9, 0xb0d6deb1, 0xce49a4a5, 0x78a992c8,
      0xbd2198e5, 0x8c7f3671, 0x85db5921, 0x06a0592d, 0x1ebccc77, 0x9735b36a, 0xeafbeb12, 0x2d4e705d,
      0x63f171e7, 0x1d191ffa, 0x37b74886, 0xa14fda6e, 0xbd8a5870, 0xeda2758a, 0x5e07c03a, 0x0bd1680c]"
  by (simp add: schedule_step ssig0_def ssig1_def rotr32)

lemma rounds_logged_2:
  "foldl sha_round (0x65930e6a, 0xa2727ead, 0xb12a9ffa, 0x8745fba0, 0x814bfa40, 0x5eb18268, 0xc5ee7b5c, 0x089f2115) (zip K256 [0x30305a22, 0x2c22696e, 0x74657270, 0x6c616e65, 0x74617279, 0x223a7472, 0x75652c22, 0x6d657472,
      0x69637322, 0x3a7b2263, 0x6f6d706c, 0x69616e63, 0x65223a22, 0x31303025, 0x227d7d31, 0x37303030,
      0xbf6929aa, 0x6c9c24ff, 0x2c6466ee, 0x0979d70e, 0xe253202d, 0x176b800e, 0x552c353c, 0x7207e4ae,
      0x7bcfdff5, 0xfee66f41, 0x1d685e2b, 0x0d12a23c, 0xe1b29b66, 0xc4fe46a7, 0x1df18dd2, 0xa7af8e52,
      0xb0193201, 0x813f3ef4, 0x61e23c7e, 0xf336ccbc, 0xffba0df1, 0x749303b4, 0xefe46214, 0x1645e17c,
      0xc273b08e, 0xef79e074, 0x903cc2c9, 0x5008728e, 0x161f59a9, 0xb0d6deb1, 0xce49a4a5, 0x78a992c8,
      0xbd2198e5, 0x8c7f3671, 0x85db5921, 0x06a0592d, 0x1ebccc77, 0x9735b36a, 0xeafbeb12, 0x2d4e705d,
      0x63f171e7, 0x1d191ffa, 0x37b74886, 0xa14fda6e, 0xbd8a5870, 0xeda2758a, 0x5e07c03a, 0x0bd1680c]) =
     (0x79daab98, 0xf37bbc70, 0xd675592b, 0x5072c7f5, 0xf1cced76, 0xf9c50206, 0xa19ac119, 0x1c7be5d9)"
  by (simp add: K256_def H256_def sha_round_step Ch_def Maj_def bsig0_def bsig1_def rotr32)

lemma block_logged_2:
  "sha_block (0x65930e6a, 0xa2727ead, 0xb12a9ffa, 0x8745fba0, 0x814bfa40, 0x5eb18268, 0xc5ee7b5c, 0x089f2115) [0x30, 0x30, 0x5a, 0x22, 0x2c, 0x22, 0x69, 0x6e, 0x74, 0x65, 0x72, 0x70, 0x6c, 0x61, 0x6e, 0x65,
      0x74, 0x61, 0x72, 0x79, 0x22, 0x3a, 0x74, 0x72, 0x75, 0x65, 0x2c, 0x22, 0x6d, 0x65, 0x74, 0x72,
      0x69, 0x63, 0x73, 0x22, 0x3a, 0x7b, 0x22, 0x63, 0x6f, 0x6d, 0x70, 0x6c, 0x69, 0x61, 0x6e, 0x63,
      0x65, 0x22, 0x3a, 0x22, 0x31, 0x30, 0x30, 0x25, 0x22, 0x7d, 0x7d, 0x31, 0x37, 0x30, 0x30, 0x30] =
     (0xdf6dba02, 0x95ee3b1d, 0x879ff925, 0xd7b8c395, 0x7318e7b6, 0x5876846e, 0x67893c75, 0x251b06ee)"
  unfolding sha_block_def words_logged_2 schedule_logged_2 rounds_logged_2
  by (simp add: H256_def sha_add_def)

lemma words_logged_3:
  "be_words [0x30, 0x30, 0x30, 0x30, 0x30, 0x30, 0x30, 0x30, 0x80, 0x00, 0x00, 0x00, 0x00, 0x00, 0x00, 0x00,
      0x00, 0x00, 0x00, 0x00, 0x00, 0x00, 0x00, 0x00, 0x00, 0x00, 0x00, 0x00, 0x00, 0x00, 0x00, 0x00,
      0x00, 0x00, 0x00, 0x00, 0x00, 0x00, 0x00, 0x00, 0x00, 0x00, 0x00, 0x00, 0x00, 0x00, 0x00, 0x00,
      0x00, 0x00, 0x00, 0x00, 0x00, 0x00, 0x00, 0x00, 0x00, 0x00, 0x00, 0x00, 0x00, 0x00, 0x04, 0x40] =
     [0x30303030, 0x30303030, 0x80000000, 0x00000000, 0x00000000, 0x00000000, 0x00000000, 0x00000000,
      0x00000000, 0x00000000, 0x00000000, 0x00000000, 0x00000000, 0x00000000, 0x00000000, 0x00000440]"
  by simp

lemma schedule_logged_3:
  "schedule 48 [0x30303030, 0x30303030, 0x80000000, 0x00000000, 0x00000000, 0x00000000, 0x00000000, 0x00000000,
      0x00000000, 0x00000000, 0x00000000, 0x00000000, 0x00000000, 0x00000000, 0x00000000, 0x00000440] =
     [0x30303030, 0x30303030, 0x80000000, 0x00000000, 0x00000000, 0x00000000, 0x00000000, 0x00000000,
      0x00000000, 0x00000000, 0x00000000, 0x00000000, 0x00000000, 0x00000000, 0x00000000, 0x00000440,
      0x9a9a9a9a, 0x43d85031, 0x9e38b8b8, 0x220e7f83, 0x4b6cd2f5, 0xf03976d9, 0xf336dc2f, 0x302662e0,
      0xf9871a7b, 0x9b58d047, 0x905b61b8, 0xbd7abbe8, 0xcd08c3d7, 0xfddcf3eb, 0x2ad8c075, 0x61ffd5e4,
      0x2d22db38, 0x315fb706, 0x3088ebaf, 0xf3ccdde3, 0xa2494387, 0x070ef6e6, 0x3daef5e0, 0x3154520d,
      0x777691de, 0x2a73266c, 0x8720f5e0, 0xde8406ec, 0x2d402ef3, 0x9e3c2296, 0xa05ed2ed, 0x31e4912c,
      0xf2223b0d, 0xf5dc5550, 0x58cfc16a, 0x0d38727b, 0xca69fd9d, 0x5995ff36, 0x39aebbc2, 0x7a59b266,
      0x0c6b9f97, 0x5f36ca80, 0x146aa52b, 0x4d443d2b, 0xc36a7bd2, 0xecfe8c4c, 0x0770c017, 0x614884a5]"
  by (simp add: schedule_step ssig0_def ssig1_def rotr32)

lemma rounds_logged_3:
  "foldl sha_round (0xdf6dba02, 0x95ee3b1d, 0x879ff925, 0xd7b8c395, 0x7318e7b6, 0x5876846e, 0x67893c75, 0x251b06ee) (zip K256 [0x30303030, 0x30303030, 0x80000000, 0x00000000, 0x00000000, 0x00000000, 0x00000000, 0x00000000,
      0x00000000, 0x00000000, 0x00000000, 0x00000000, 0x00000000, 0x00000000, 0x00000000, 0x00000440,
      0x9a9a9a9a, 0x43d85031, 0x9e38b8b8, 0x220e7f83, 0x4b6cd2f5, 0xf03976d9, 0xf336dc2f, 0x302662e0,
      0xf9871a7b, 0x9b58d047, 0x905b61b8, 0xbd7abbe8, 0xcd08c3d7, 0xfddcf3eb, 0x2ad8c075, 0x61ffd5e4,
      0x2d22db38, 0x315fb706, 0x3088ebaf, 0xf3ccdde3, 0xa2494387, 0x070ef6e6, 0x3daef5e0, 0x3154520d,
      0x777691de, 0x2a73266c, 0x8720f5e0, 0xde8406ec, 0x2d402ef3, 0x9e3c2296, 0xa05ed2ed, 0x31e4912c,
      0xf2223b0d, 0xf5dc5550, 0x58cfc16a, 0x0d38727b, 0xca69fd9d, 0x5995ff36, 0x39aebbc2, 0x7a59b266,
      0x0c6b9f97, 0x5f36ca80, 0x146aa52b, 0x4d443d2b, 0xc36a7bd2, 0xecfe8c4c, 0x0770c017, 0x614884a5]) =
     (0x021fe787, 0xd447e7eb, 0xf820bc1e, 0xe4cc7a3a, 0x1bcf3d3a, 0xd2ecc147, 0xe1757664, 0x0143708d)"
  by (simp add: K256_def H256_def sha_round_step Ch_def Maj_def bsig0_def bsig1_def rotr32)

lemma block_logged_3:
  "sha_block (0xdf6dba02, 0x95ee3b1d, 0x879ff925, 0xd7b8c395, 0x7318e7b6, 0x5876846e, 0x67893c75, 0x251b06ee) [0x30, 0x30, 0x30, 0x30, 0x30, 0x30, 0x30, 0x30, 0x80, 0x00, 0x00, 0x00, 0x00, 0x00, 0x00, 0x00,
      0x00, 0x00, 0x00, 0x00, 0x00, 0x00, 0x00, 0x00, 0x00, 0x00, 0x00, 0x00, 0x00, 0x00, 0x00, 0x00,
      0x00, 0x00, 0x00, 0x00, 0x00, 0x00, 0x00, 0x00, 0x00, 0x00, 0x00, 0x00, 0x00, 0x00, 0x00, 0x00,
      0x00, 0x00, 0x00, 0x00, 0x00, 0x00, 0x00, 0x00, 0x00, 0x00, 0x00, 0x00, 0x00, 0x00, 0x04, 0x40] =
     (0xe18da189, 0x6a362308, 0x7fc0b543, 0xbc853dcf, 0x8ee824f0, 0x2b6345b5, 0x48feb2d9, 0x265e777b)"
  unfolding sha_block_def words_logged_3 schedule_logged_3 rounds_logged_3
  by (simp add: H256_def sha_add_def)

lemma digest16_logged:
  "digest16 (Obj (with_defaults env0 boot_event)) (string_of_nat (dateNow env0)) = ''e18da1896a362308''"
  unfolding digest16_def bytes_logged sha256_def pad_logged
  by (simp add: sha_blocks_step block_logged_1 block_logged_2 block_logged_3 word_bytes_def toHex_def byte_hex_def hexdig_def)

lemma bytes_stored:
  "encode (stringify_text (Obj (put (with_defaults env0 boot_event) ''signature'' (Str ''QS-e18da1896a362308-1700000000000''))) @ string_of_nat (dateNow env0)) =
     [0x7b, 0x22, 0x65, 0x76, 0x65, 0x6e, 0x74, 0x22, 0x3a, 0x22, 0x62, 0x6f, 0x6f, 0x74, 0x22, 0x2c,
      0x22, 0x74, 0x78, 0x49, 0x64, 0x22, 0x3a, 0x22, 0x54, 0x58, 0x2d, 0x31, 0x22, 0x2c, 0x22, 0x74,
      0x69, 0x6d, 0x65, 0x73, 0x74, 0x61, 0x6d, 0x70, 0x22, 0x3a, 0x22, 0x32, 0x30, 0x32, 0x33, 0x2d,
      0x31, 0x31, 0x2d, 0x31, 0x34, 0x54, 0x32, 0x32, 0x3a, 0x31, 0x33, 0x3a, 0x32, 0x30, 0x2e, 0x30,
      0x30, 0x30, 0x5a, 0x22, 0x2c, 0x22, 0x69, 0x6e, 0x74, 0x65, 0x72, 0x70, 0x6c, 0x61, 0x6e, 0x65,
      0x74, 0x61, 0x72, 0x79, 0x22, 0x3a, 0x74, 0x72, 0x75, 0x65, 0x2c, 0x22, 0x6d, 0x65, 0x74, 0x72,
      0x69, 0x63, 0x73, 0x22, 0x3a, 0x7b, 0x22, 0x63, 0x6f, 0x6d, 0x70, 0x6c, 0x69, 0x61, 0x6e, 0x63,
      0x65, 0x22, 0x3a, 0x22, 0x31, 0x30, 0x30, 0x25, 0x22, 0x7d, 0x2c, 0x22, 0x73, 0x69, 0x67, 0x6e,
      0x61, 0x74, 0x75, 0x72, 0x65, 0x22, 0x3a, 0x22, 0x51, 0x53, 0x2d, 0x65, 0x31, 0x38, 0x64, 0x61,
      0x31, 0x38, 0x39, 0x36, 0x61, 0x33, 0x36, 0x32, 0x33, 0x30, 0x38, 0x2d, 0x31, 0x37, 0x30, 0x30,
      0x30, 0x30, 0x30, 0x30, 0x30, 0x30, 0x30, 0x30, 0x30, 0x22, 0x7d, 0x31, 0x37, 0x30, 0x30, 0x30,
      0x30, 0x30, 0x30, 0x30, 0x30, 0x30, 0x30, 0x30]"
  unfolding boot_record
  by (simp add: stringify_text_def encode_def env0_def quoteJSONString_def
        json_escape_def dquote_def backslash_def string_of_nat.simps decdig_def)

lemma pad_stored:
  "sha_pad [0x7b, 0x22, 0x65, 0x76, 0x65, 0x6e, 0x74, 0x22, 0x3a, 0x22, 0x62, 0x6f, 0x6f, 0x74, 0x22, 0x2c,
      0x22, 0x74, 0x78, 0x49, 0x64, 0x22, 0x3a, 0x22, 0x54, 0x58, 0x2d, 0x31, 0x22, 0x2c, 0x22, 0x74,
      0x69, 0x6d, 0x65, 0x73, 0x74, 0x61, 0x6d, 0x70, 0x22, 0x3a, 0x22, 0x32, 0x30, 0x32, 0x33, 0x2d,
      0x31, 0x31, 0x2d, 0x31, 0x34, 0x54, 0x32, 0x32, 0x3a, 0x31, 0x33, 0x3a, 0x32, 0x30, 0x2e, 0x30,
      0x30, 0x30, 0x5a, 0x22, 0x2c, 0x22, 0x69, 0x6e, 0x74, 0x65, 0x72, 0x70, 0x6c, 0x61, 0x6e, 0x65,
      0x74, 0x61, 0x72, 0x79, 0x22, 0x3a, 0x74, 0x72, 0x75, 0x65, 0x2c, 0x22, 0x6d, 0x65, 0x74, 0x72,
      0x69, 0x63, 0x73, 0x22, 0x3a, 0x7b, 0x22, 0x63, 0x6f, 0x6d, 0x70, 0x6c, 0x69, 0x61, 0x6e, 0x63,
      0x65, 0x22, 0x3a, 0x22, 0x31, 0x30, 0x30, 0x25, 0x22, 0x7d, 0x2c, 0x22, 0x73, 0x69, 0x67, 0x6e,
      0x61, 0x74, 0x75, 0x72, 0x65, 0x22, 0x3a, 0x22, 0x51, 0x53, 0x2d, 0x65, 0x31, 0x38, 0x64, 0x61,
      0x31, 0x38, 0x39, 0x36, 0x61, 0x33, 0x36, 0x32, 0x33, 0x30, 0x38, 0x2d, 0x31, 0x37, 0x30, 0x30,
      0x30, 0x30, 0x30, 0x30, 0x30, 0x30, 0x30, 0x30, 0x30, 0x22, 0x7d, 0x31, 0x37, 0x30, 0x30, 0x30,
      0x30, 0x30, 0x30, 0x30, 0x30, 0x30, 0x30, 0x30] =
     [0x7b, 0x22, 0x65, 0x76, 0x65, 0x6e, 0x74, 0x22, 0x3a, 0x22, 0x62, 0x6f, 0x6f, 0x74, 0x22, 0x2c,
      0x22, 0x74, 0x78, 0x49, 0x64, 0x22, 0x3a, 0x22, 0x54, 0x58, 0x2d, 0x31, 0x22, 0x2c, 0x22, 0x74,
      0x69, 0x6d, 0x65, 0x73, 0x74, 0x61, 0x6d, 0x70, 0x22, 0x3a, 0x22, 0x32, 0x30, 0x32, 0x33, 0x2d,
      0x31, 0x31, 0x2d, 0x31, 0x34, 0x54, 0x32, 0x32, 0x3a, 0x31, 0x33, 0x3a, 0x32, 0x30, 0x2e, 0x30,
      0x30, 0x30, 0x5a, 0x22, 0x2c, 0x22, 0x69, 0x6e, 0x74, 0x65, 0x72, 0x70, 0x6c, 0x61, 0x6e, 0x65,
      0x74, 0x61, 0x72, 0x79, 0x22, 0x3a, 0x74, 0x72, 0x75, 0x65, 0x2c, 0x22, 0x6d, 0x65, 0x74, 0x72,
      0x69, 0x63, 0x73, 0x22, 0x3a, 0x7b, 0x22, 0x63, 0x6f, 0x6d, 0x70, 0x6c, 0x69, 0x61, 0x6e, 0x63,
      0x65, 0x22, 0x3a, 0x22, 0x31, 0x30, 0x30, 0x25, 0x22, 0x7d, 0x2c, 0x22, 0x73, 0x69, 0x67, 0x6e,
      0x61, 0x74, 0x75, 0x72, 0x65, 0x22, 0x3a, 0x22, 0x51, 0x53, 0x2d, 0x65, 0x31, 0x38, 0x64, 0x61,
      0x31, 0x38, 0x39, 0x36, 0x61, 0x33, 0x36, 0x32, 0x33, 0x30, 0x38, 0x2d, 0x31, 0x37, 0x30, 0x30,
      0x30, 0x30, 0x30, 0x30, 0x30, 0x30, 0x30, 0x30, 0x30, 0x22, 0x7d, 0x31, 0x37, 0x30, 0x30, 0x30,
      0x30, 0x30, 0x30, 0x30, 0x30, 0x30, 0x30, 0x30, 0x80, 0x00, 0x00, 0x00, 0x00, 0x00, 0x00, 0x00,
      0x00, 0x00, 0x00, 0x00, 0x00, 0x00, 0x00, 0x00, 0x00, 0x00, 0x00, 0x00, 0x00, 0x00, 0x00, 0x00,
      0x00, 0x00, 0x00, 0x00, 0x00, 0x00, 0x00, 0x00, 0x00, 0x00, 0x00, 0x00, 0x00, 0x00, 0x00, 0x00,
      0x00, 0x00, 0x00, 0x00, 0x00, 0x00, 0x00, 0x00, 0x00, 0x00, 0x00, 0x00, 0x00, 0x00, 0x00, 0x00,
      0x00, 0x00, 0x00, 0x00, 0x00, 0x00, 0x00, 0x00, 0x00, 0x00, 0x00, 0x00, 0x00, 0x00, 0x05, 0xc0]"
  by (simp add: sha_pad_def be_bytes_def upt_conv_Cons replicate_63)

lemma words_stored_1:
  "be_words [0x7b, 0x22, 0x65, 0x76, 0x65, 0x6e, 0x74, 0x22, 0x3a, 0x22, 0x62, 0x6f, 0x6f, 0x74, 0x22, 0x2c,
      0x22, 0x74, 0x78, 0x49, 0x64, 0x22, 0x3a, 0x22, 0x54, 0x58, 0x2d, 0x31, 0x22, 0x2c, 0x22, 0x74,
      0x69, 0x6d, 0x65, 0x73, 0x74, 0x61, 0x6d, 0x70, 0x22, 0x3a, 0x22, 0x32, 0x30, 0x32, 0x33, 0x2d,
      0x31, 0x31, 0x2d, 0x31, 0x34, 0x54, 0x32, 0x32, 0x3a, 0x31, 0x33, 0x3a, 0x32, 0x30, 0x2e, 0x30] =
     [0x7b226576, 0x656e7422, 0x3a22626f, 0x6f74222c, 0x22747849, 0x64223a22, 0x54582d31, 0x222c2274,
      0x696d6573, 0x74616d70, 0x223a2232, 0x3032332d, 0x31312d31, 0x34543232, 0x3a31333a, 0x32302e30]"
  by simp

lemma schedule_stored_1:
  "schedule 48 [0x7b226576, 0x656e7422, 0x3a22626f, 0x6f74222c, 0x22747849, 0x64223a22, 0x54582d31, 0x222c2274,
      0x696d6573, 0x74616d70, 0x223a2232, 0x3032332d, 0x31312d31, 0x34543232, 0x3a31333a, 0x32302e30] =
     [0x7b226576, 0x656e7422, 0x3a22626f, 0x6f74222c, 0x22747849, 0x64223a22, 0x54582d31, 0x222c2274,
      0x696d6573, 0x74616d70, 0x223a2232, 0x3032332d, 0x31312d31, 0x34543232, 0x3a31333a, 0x32302e30,
      0x84e8342f, 0xdc26efaa, 0xe4c3165c, 0xd2d4baed, 0x076a22ef, 0xcbe33464, 0xc050e9b2, 0x56440722,
      0x64ac73a1, 0xc5152d43, 0x7d7a010d, 0x99dd412f, 0xac3b545e, 0x3d362ef6, 0xbeb330c1, 0xac266e5e,
      0x3e2accd8, 0xb537589a, 0xaddd348b, 0x1cdba2f8, 0x9f92b819, 0x77a0ad34, 0xc74c0e20, 0x2a44c0c1,
      0x7541f33e, 0x007b6ea5, 0x7e7f3d49, 0x91beef5e, 0xfd4f379f, 0x077ea23e, 0x99466e63, 0xab50821c,
      0x2f6c527c, 0xd4e0a254, 0xfe333164, 0xee4bb8f2, 0xf3090f7e, 0x1732fba4, 0xd03550ea, 0x8ae179cf,
      0xde25aff1, 0xe50c72c7, 0xe3bf5852, 0x297ed3e6, 0x300c9e9d, 0xdabc288d, 0x0d74c0e5, 0x04048440]"
  by (simp add: schedule_step ssig0_def ssig1_def rotr32)

lemma rounds_stored_1:
  "foldl sha_round H256 (zip K256 [0x7b226576, 0x656e7422, 0x3a22626f, 0x6f74222c, 0x22747849, 0x64223a22, 0x54582d31, 0x222c2274,
      0x696d6573, 0x74616d70, 0x223a2232, 0x3032332d, 0x31312d31, 0x34543232, 0x3a31333a, 0x32302e30,
      0x84e8342f, 0xdc26efaa, 0xe4c3165c, 0xd2d4baed, 0x076a22ef, 0xcbe33464, 0xc050e9b2, 0x56440722,
      0x64ac73a1, 0xc5152d43, 0x7d7a010d, 0x99dd412f, 0xac3b545e, 0x3d362ef6, 0xbeb330c1, 0xac266e5e,
      0x3e2accd8, 0xb537589a, 0xaddd348b, 0x1cdba2f8, 0x9f92b819, 0x77a0ad34, 0xc74c0e20, 0x2a44c0c1,
      0x7541f33e, 0x007b6ea5, 0x7e7f3d49, 0x91beef5e, 0xfd4f379f, 0x077ea23e, 0x99466e63, 0xab50821c,
      0x2f6c527c, 0xd4e0a254, 0xfe333164, 0xee4bb8f2, 0xf3090f7e, 0x1732fba4, 0xd03550ea, 0x8ae179cf,
      0xde25aff1, 0xe50c72c7, 0xe3bf5852, 0x297ed3e6, 0x300c9e9d, 0xdabc288d, 0x0d74c0e5, 0x04048440]) =
     (0xfb892803, 0xe70ad028, 0x74bbac88, 0xe1f60666, 0x303da7c1, 0xc3ac19dc, 0xa66aa1b1, 0xacbe53fc)"
  by (simp add: K256_def H256_def sha_round_step Ch_def Maj_def bsig0_def bsig1_def rotr32)

lemma block_stored_1:
  "sha_block H256 [0x7b, 0x22, 0x65, 0x76, 0x65, 0x6e, 0x74, 0x22, 0x3a, 0x22, 0x62, 0x6f, 0x6f, 0x74, 0x22, 0x2c,
      0x22, 0x74, 0x78, 0x49, 0x64, 0x22, 0x3a, 0x22, 0x54, 0x58, 0x2d, 0x31, 0x22, 0x2c, 0x22, 0x74,
      0x69, 0x6d, 0x65, 0x73, 0x74, 0x61, 0x6d, 0x70, 0x22, 0x3a, 0x22, 0x32, 0x30, 0x32, 0x33, 0x2d,
      0x31, 0x31, 0x2d, 0x31, 0x34, 0x54, 0x32, 0x32, 0x3a, 0x31, 0x33, 0x3a, 0x32, 0x30, 0x2e, 0x30] =
     (0x65930e6a, 0xa2727ead, 0xb12a9ffa, 0x8745fba0, 0x814bfa40, 0x5eb18268, 0xc5ee7b5c, 0x089f2115)"
  unfolding sha_block_def words_stored_1 schedule_stored_1 rounds_stored_1
  by (simp add: H256_def sha_add_def)

lemma words_stored_2:
  "be_words [0x30, 0x30, 0x5a, 0x22, 0x2c, 0x22, 0x69, 0x6e, 0x74, 0x65, 0x72, 0x70, 0x6c, 0x61, 0x6e, 0x65,
      0x74, 0x61, 0x72, 0x79, 0x22, 0x3a, 0x74, 0x72, 0x75, 0x65, 0x2c, 0x22, 0x6d, 0x65, 0x74, 0x72,
      0x69, 0x63, 0x73, 0x22, 0x3a, 0x7b, 0x22, 0x63, 0x6f, 0x6d, 0x70, 0x6c, 0x69, 0x61, 0x6e, 0x63,
      0x65, 0x22, 0x3a, 0x22, 0x31, 0x30, 0x30, 0x25, 0x22, 0x7d, 0x2c, 0x22, 0x73, 0x69, 0x67, 0x6e] =
     [0x30305a22, 0x2c22696e, 0x74657270, 0x6c616e65, 0x74617279, 0x223a7472, 0x75652c22, 0x6d657472,
      0x69637322, 0x3a7b2263, 0x6f6d706c, 0x69616e63, 0x65223a22, 0x31303025, 0x227d2c22, 0x7369676e]"
  by simp

lemma schedule_stored_2:
  "schedule 48 [0x30305a22, 0x2c22696e, 0x74657270, 0x6c616e65, 0x74617279, 0x223a7472, 0x75652c22, 0x6d657472,
      0x69637322, 0x3a7b2263, 0x6f6d706c, 0x69616e63, 0x65223a22, 0x31303025, 0x227d2c22, 0x7369676e] =
     [0x30305a22, 0x2c22696e, 0x74657270, 0x6c616e65, 0x74617279, 0x223a7472, 0x75652c22, 0x6d657472,
      0x69637322, 0x3a7b2263, 0x6f6d706c, 0x69616e63, 0x65223a22, 0x31303025, 0x227d2c22, 0x7369676e,
      0xe1d0c9b6, 0xedce810d, 0xf86a6dbb, 0x031a9338, 0x9e05ef29, 0x62025a63, 0xe7901088, 0x4ad1ced9,
      0x6b41dc03, 0x9ab33795, 0xd88941ab, 0xcb6ccac6, 0x904873b2, 0x1fcd7fd9, 0x302a6625, 0x324fa382,
      0xa27f6c24, 0xdfa8f6b4, 0xf440fab3, 0x3454f6c0, 0x7c229b10, 0x8100e5f9, 0x014eb62f, 0xd8734e7e,
      0xce436c0b, 0x7a85aac0, 0x8ee038b3, 0x137b33d1, 0x1ae5db44, 0xf69eff28, 0x4a37d39f, 0x26e20d73,
      0x809b515e, 0xfd73e248, 0x85b31f2e, 0x6645194f, 0x39721614, 0xee71143e, 0xa718c403, 0xd707ef58,
      0x2b75505d, 0x83989f65, 0x64131445, 0xa72457e4, 0xe2fee98c, 0x021418e7, 0x2cdc619d, 0x5b0d3ecd]"
  by (simp add: schedule_step ssig0_def ssig1_def rotr32)

lemma rounds_stored_2:
  "foldl sha_round (0x65930e6a, 0xa2727ead, 0xb12a9ffa, 0x8745fba0, 0x814bfa40, 0x5eb18268, 0xc5ee7b5c, 0x089f2115) (zip K256 [0x30305a22, 0x2c22696e, 0x74657270, 0x6c616e65, 0x74617279, 0x223a7472, 0x75652c22, 0x6d657472,
      0x69637322, 0x3a7b2263, 0x6f6d706c, 0x69616e63, 0x65223a22, 0x31303025, 0x227d2c22, 0x7369676e,
      0xe1d0c9b6, 0xedce810d, 0xf86a6dbb, 0x031a9338, 0x9e05ef29, 0x62025a63, 0xe7901088, 0x4ad1ced9,
      0x6b41dc03, 0x9ab33795, 0xd88941ab, 0xcb6ccac6, 0x904873b2, 0x1fcd7fd9, 0x302a6625, 0x324fa382,
      0xa27f6c24, 0xdfa8f6b4, 0xf440fab3, 0x3454f6c0, 0x7c229b10, 0x8100e5f9, 0x014eb62f, 0xd8734e7e,
      0xce436c0b, 0x7a85aac0, 0x8ee038b3, 0x137b33d1, 0x1ae5db44, 0xf69eff28, 0x4a37d39f, 0x26e20d73,
      0x809b515e, 0xfd73e248, 0x85b31f2e, 0x6645194f, 0x39721614, 0xee71143e, 0xa718c403, 0xd707ef58,
      0x2b75505d, 0x83989f65, 0x64131445, 0xa72457e4, 0xe2fee98c, 0x021418e7, 0x2cdc619d, 0x5b0d3ecd]) =
     (0x529878cf, 0x9e3ab1b6, 0x0a089398, 0x7396e2a8, 0x773eb1dc, 0x1f74db56, 0x3373b9cb, 0x0a8336a9)"
  by (simp add: K256_def H256_def sha_round_step Ch_def Maj_def bsig0_def bsig1_def rotr32)

lemma block_stored_2:
  "sha_block (0x65930e6a, 0xa2727ead, 0xb12a9ffa, 0x8745fba0, 0x814bfa40, 0x5eb18268, 0xc5ee7b5c, 0x089f2115) [0x30, 0x30, 0x5a, 0x22, 0x2c, 0x22, 0x69, 0x6e, 0x74, 0x65, 0x72, 0x70, 0x6c, 0x61, 0x6e, 0x65,
      0x74, 0x61, 0x72, 0x79, 0x22, 0x3a, 0x74, 0x72, 0x75, 0x65, 0x2c, 0x22, 0x6d, 0x65, 0x74, 0x72,
      0x69, 0x63, 0x73, 0x22, 0x3a, 0x7b, 0x22, 0x63, 0x6f, 0x6d, 0x70, 0x6c, 0x69, 0x61, 0x6e, 0x63,
      0x65, 0x22, 0x3a, 0x22, 0x31, 0x30, 0x30, 0x25, 0x22, 0x7d, 0x2c, 0x22, 0x73, 0x69, 0x67, 0x6e] =
     (0xb82b8739, 0x40ad3063, 0xbb333392, 0xfadcde48, 0xf88aac1c, 0x7e265dbe, 0xf9623527, 0x132257be)"
  unfolding sha_block_def words_stored_2 schedule_stored_2 rounds_stored_2
  by (simp add: H256_def sha_add_def)

lemma words_stored_3:
  "be_words [0x61, 0x74, 0x75, 0x72, 0x65, 0x22, 0x3a, 0x22, 0x51, 0x53, 0x2d, 0x65, 0x31, 0x38, 0x64, 0x61,
      0x31, 0x38, 0x39, 0x36, 0x61, 0x33, 0x36, 0x32, 0x33, 0x30, 0x38, 0x2d, 0x31, 0x37, 0x30, 0x30,
      0x30, 0x30, 0x30, 0x30, 0x30, 0x30, 0x30, 0x30, 0x30, 0x22, 0x7d, 0x31, 0x37, 0x30, 0x30, 0x30,
      0x30, 0x30, 0x30, 0x30, 0x30, 0x30, 0x30, 0x30, 0x80, 0x00, 0x00, 0x00, 0x00, 0x00, 0x00, 0x00] =
     [0x61747572, 0x65223a22, 0x51532d65, 0x31386461, 0x31383936, 0x61333632, 0x3330382d, 0x31373030,
      0x30303030, 0x30303030, 0x30227d31, 0x37303030, 0x30303030, 0x30303030, 0x80000000, 0x00000000]"
  by simp

lemma schedule_stored_3:
  "schedule 48 [0x61747572, 0x65223a22, 0x51532d65, 0x31386461, 0x31383936, 0x61333632, 0x3330382d, 0x31373030,
      0x30303030, 0x30303030, 0x30227d31, 0x37303030, 0x30303030, 0x30303030, 0x80000000, 0x00000000] =
     [0x61747572, 0x65223a22, 0x51532d65, 0x31386461, 0x31383936, 0x61333632, 0x3330382d, 0x31373030,
      0x30303030, 0x30303030, 0x30227d31, 0x37303030, 0x30303030, 0x30303030, 0x80000000, 0x00000000,
      0x58ab901a, 0xa1164ef5, 0x1ff8db43, 0xb3fdb0e5, 0x7d9f1481, 0xa180f2d8, 0x4648b311, 0x5b6c4f80,
      0x8bac0350, 0xf978508f, 0xd0855963, 0x41a20ca2, 0x43c54076, 0xcf4e03a7, 0xe391684a, 0x28e38427,
      0x5816378f, 0xd7491f04, 0xefdc4beb, 0x6c829843, 0x9365cd0d, 0xaac72d2f, 0xe66b2199, 0xd7521386,
      0x6cb97c72, 0xc0c45800, 0x9e53dd1f, 0x311ad59a, 0x5a36c559, 0xb9d2f498, 0x1f390570, 0x52df7ca2,
      0x0f72d5d5, 0xa04d9b2b, 0x7ea4a97f, 0xbf9b2bc7, 0x900f3c9f, 0xa21ccd7d, 0x46e82b87, 0x9c519231,
      0x2d433cc1, 0x169426d2, 0xdf0ad00a, 0x6185e276, 0xc9f75eb4, 0xf0ae1313, 0x921fdd8d, 0x6a8063f6]"
  by (simp add: schedule_step ssig0_def ssig1_def rotr32)

lemma rounds_stored_3:
  "foldl sha_round (0xb82b8739, 0x40ad3063, 0xbb333392, 0xfadcde48, 0xf88aac1c, 0x7e265dbe, 0xf9623527, 0x132257be) (zip K256 [0x61747572, 0x65223a22, 0x51532d65, 0x31386461, 0x31383936, 0x61333632, 0x3330382d, 0x31373030,
      0x30303030, 0x30303030, 0x30227d31, 0x37303030, 0x30303030, 0x30303030, 0x80000000, 0x00000000,
      0x58ab901a, 0xa1164ef5, 0x1ff8db43, 0xb3fdb0e5, 0x7d9f1481, 0xa180f2d8, 0x4648b311, 0x5b6c4f80,
      0x8bac0350, 0xf978508f, 0xd0855963, 0x41a20ca2, 0x43c54076, 0xcf4e03a7, 0xe391684a, 0x28e38427,
      0x5816378f, 0xd7491f04, 0xefdc4beb, 0x6c829843, 0x9365cd0d, 0xaac72d2f, 0xe66b2199, 0xd7521386,
      0x6cb97c72, 0xc0c45800, 0x9e53dd1f, 0x311ad59a, 0x5a36c559, 0xb9d2f498, 0x1f390570, 0x52df7ca2,
      0x0f72d5d5, 0xa04d9b2b, 0x7ea4a97f, 0xbf9b2bc7, 0x900f3c9f, 0xa21ccd7d, 0x46e82b87, 0x9c519231,
      0x2d433cc1, 0x169426d2, 0xdf0ad00a, 0x6185e276, 0xc9f75eb4, 0xf0ae1313, 0x921fdd8d, 0x6a8063f6]) =
     (0xa8235079, 0xb7ee3b0d, 0x0dc25de3, 0x4bcd60a0, 0x3e316225, 0x7764ff13, 0xc7e18b98, 0x2cae6571)"
  by (simp add: K256_def H256_def sha_round_step Ch_def Maj_def bsig0_def bsig1_def rotr32)

lemma block_stored_3:
  "sha_block (0xb82b8739, 0x40ad3063, 0xbb333392, 0xfadcde48, 0xf88aac1c, 0x7e265dbe, 0xf9623527, 0x132257be) [0x61, 0x74, 0x75, 0x72, 0x65, 0x22, 0x3a, 0x22, 0x51, 0x53, 0x2d, 0x65, 0x31, 0x38, 0x64, 0x61,
      0x31, 0x38, 0x39, 0x36, 0x61, 0x33, 0x36, 0x32, 0x33, 0x30, 0x38, 0x2d, 0x31, 0x37, 0x30, 0x30,
      0x30, 0x30, 0x30, 0x30, 0x30, 0x30, 0x30, 0x30, 0x30, 0x22, 0x7d, 0x31, 0x37, 0x30, 0x30, 0x30,
      0x30, 0x30, 0x30, 0x30, 0x30, 0x30, 0x30, 0x30, 0x80, 0x00, 0x00, 0x00, 0x00, 0x00, 0x00, 0x00] =
     (0x604ed7b2, 0xf89b6b70, 0xc8f59175, 0x46aa3ee8, 0x36bc0e41, 0xf58b5cd1, 0xc143c0bf, 0x3fd0bd2f)"
  unfolding sha_block_def words_stored_3 schedule_stored_3 rounds_stored_3
  by (simp add: H256_def sha_add_def)

lemma words_stored_4:
  "be_words [0x00, 0x00, 0x00, 0x00, 0x00, 0x00, 0x00, 0x00, 0x00, 0x00, 0x00, 0x00, 0x00, 0x00, 0x00, 0x00,
      0x00, 0x00, 0x00, 0x00, 0x00, 0x00, 0x00, 0x00, 0x00, 0x00, 0x00, 0x00, 0x00, 0x00, 0x00, 0x00,
      0x00, 0x00, 0x00, 0x00, 0x00, 0x00, 0x00, 0x00, 0x00, 0x00, 0x00, 0x00, 0x00, 0x00, 0x00, 0x00,
      0x00, 0x00, 0x00, 0x00, 0x00, 0x00, 0x00, 0x00, 0x00, 0x00, 0x00, 0x00, 0x00, 0x00, 0x05, 0xc0] =
     [0x00000000, 0x00000000, 0x00000000, 0x00000000, 0x00000000, 0x00000000, 0x00000000, 0x00000000,
      0x00000000, 0x00000000, 0x00000000, 0x00000000, 0x00000000, 0x00000000, 0x00000000, 0x000005c0]"
  by simp

lemma schedule_stored_4:
  "schedule 48 [0x00000000, 0x00000000, 0x00000000, 0x00000000, 0x00000000, 0x00000000, 0x00000000, 0x00000000,
      0x00000000, 0x00000000, 0x00000000, 0x00000000, 0x00000000, 0x00000000, 0x00000000, 0x000005c0] =
     [0x00000000, 0x00000000, 0x00000000, 0x00000000, 0x00000000, 0x00000000, 0x00000000, 0x00000000,
      0x00000000, 0x00000000, 0x00000000, 0x00000000, 0x00000000, 0x00000000, 0x00000000, 0x000005c0,
      0x00000000, 0x02580001, 0x00000000, 0x00003767, 0x00000000, 0x1d5f600d, 0x000005c0, 0x5c007adc,
      0x04b00002, 0x3222a59e, 0x0000a635, 0x067057fc, 0x653b8036, 0x210025a3, 0x8d752c69, 0x1b1dba6b,
      0x680d4093, 0x6cd6cfb9, 0xd28bf8d5, 0x236c65df, 0x65d72d23, 0xeaa13beb, 0x3bd98473, 0x835fbce5,
      0xf7877a21, 0x720a9a28, 0x63141ccd, 0x0af5d949, 0x28cf61cf, 0x3e16eff0, 0x297876f2, 0x38a43a8e,
      0xdc7219a6, 0xb9c4fb17, 0xd0af17fa, 0xb03cb51d, 0x919fd63c, 0x602b6181, 0xbacfa43c, 0xc05209a4,
      0xd0334a02, 0x1a289228, 0xc4df22dd, 0x3b28ecc3, 0x5a423030, 0x619f3963, 0x5d997888, 0x54bc4fdd]"
  by (simp add: schedule_step ssig0_def ssig1_def rotr32)

lemma rounds_stored_4:
  "foldl sha_round (0x604ed7b2, 0xf89b6b70, 0xc8f59175, 0x46aa3ee8, 0x36bc0e41, 0xf58b5cd1, 0xc143c0bf, 0x3fd0bd2f) (zip K256 [0x00000000, 0x00000000, 0x00000000, 0x00000000, 0x00000000, 0x00000000, 0x00000000, 0x00000000,
      0x00000000, 0x00000000, 0x00000000, 0x00000000, 0x00000000, 0x00000000, 0x00000000, 0x000005c0,
      0x00000000, 0x02580001, 0x00000000, 0x00003767, 0x00000000, 0x1d5f600d, 0x000005c0, 0x5c007adc,
      0x04b00002, 0x3222a59e, 0x0000a635, 0x067057fc, 0x653b8036, 0x210025a3, 0x8d752c69, 0x1b1dba6b,
      0x680d4093, 0x6cd6cfb9, 0xd28bf8d5, 0x236c65df, 0x65d72d23, 0xeaa13beb, 0x3bd98473, 0x835fbce5,
      0xf7877a21, 0x720a9a28, 0x63141ccd, 0x0af5d949, 0x28cf61cf, 0x3e16eff0, 0x297876f2, 0x38a43a8e,
      0xdc7219a6, 0xb9c4fb17, 0xd0af17fa, 0xb03cb51d, 0x919fd63c, 0x602b6181, 0xbacfa43c, 0xc05209a4,
      0xd0334a02, 0x1a289228, 0xc4df22dd, 0x3b28ecc3, 0x5a423030, 0x619f3963, 0x5d997888, 0x54bc4fdd]) =
     (0x3d1fbd8c, 0xb7b420de, 0xa83cf272, 0xeab3455d, 0x9afadbe2, 0x0de9b745, 0xf3373a76, 0xff187bcb)"
  by (simp add: K256_def H256_def sha_round_step Ch_def Maj_def bsig0_def bsig1_def rotr32)

lemma block_stored_4:
  "sha_block (0x604ed7b2, 0xf89b6b70, 0xc8f59175, 0x46aa3ee8, 0x36bc0e41, 0xf58b5cd1, 0xc143c0bf, 0x3fd0bd2f) [0x00, 0x00, 0x00, 0x00, 0x00, 0x00, 0x00, 0x00, 0x00, 0x00, 0x00, 0x00, 0x00, 0x00, 0x00, 0x00,
      0x00, 0x00, 0x00, 0x00, 0x00, 0x00, 0x00, 0x00, 0x00, 0x00, 0x00, 0x00, 0x00, 0x00, 0x00, 0x00,
      0x00, 0x00, 0x00, 0x00, 0x00, 0x00, 0x00, 0x00, 0x00, 0x00, 0x00, 0x00, 0x00, 0x00, 0x00, 0x00,
      0x00, 0x00, 0x00, 0x00, 0x00, 0x00, 0x00, 0x00, 0x00, 0x00, 0x00, 0x00, 0x00, 0x00, 0x05, 0xc0] =
     (0x9d6e953e, 0xb04f8c4e, 0x713283e7, 0x315d8445, 0xd1b6ea23, 0x03751416, 0xb47afb35, 0x3ee938fa)"
  unfolding sha_block_def words_stored_4 schedule_stored_4 rounds_stored_4
  by (simp add: H256_def sha_add_def)

lemma digest16_stored:
  "digest16 (Obj (put (with_defaults env0 boot_event) ''signature'' (Str ''QS-e18da1896a362308-1700000000000''))) (string_of_nat (dateNow env0)) = ''9d6e953eb04f8c4e''"
  unfolding digest16_def bytes_stored sha256_def pad_stored
  by (simp add: sha_blocks_step block_stored_1 block_stored_2 block_stored_3 block_stored_4 word_bytes_def toHex_def byte_hex_def hexdig_def)

lemma signature_of_boot_record:
  "createQuantumSignature env0 (Obj (with_defaults env0 boot_event))
     = ''QS-e18da1896a362308-1700000000000''"
proof -
  have t: "string_of_nat (dateNow env0) = ''1700000000000''"
    by (simp add: env0_def string_of_nat.simps decdig_def)
  have d: "take 16 (toHex (sha256 (encode
             (signed_text (Obj (with_defaults env0 boot_event)) (dateNow env0)))))
             = ''e18da1896a362308''"
    using digest16_logged by (simp add: digest16_def signed_text_eq)
  show ?thesis
    unfolding createQuantumSignature_def Let_def d t by simp
qed

section \<open>Appending\<close>

text \<open>
  C1 (counterexample). \<^verbatim>\<open>event\<close> and \<^verbatim>\<open>txId\<close> are non-empty, and \<^verbatim>\<open>metrics\<close> is the
  string \<^verbatim>\<open>'fast'\<close>. The assignment \<^verbatim>\<open>data.metrics.compliance = '100%'\<close> throws a
  \<^verbatim>\<open>TypeError\<close> in strict code: the call is rejected, nothing is stored and nothing is
  sent.
\<close>

theorem primitive_metrics_not_persisted:
  "valid_input fast_event \<and>
   fst (logQCHAIN env0 fast_event online0) = Inl TypeError \<and>
   snd (snd (logQCHAIN env0 fast_event online0)) = online0 \<and>
   getQCHAINLogs (snd (snd (logQCHAIN env0 fast_event online0))) = []"
proof -
  have v: "valid_input fast_event" and w: "\<not> well_typed_metrics fast_event"
    by (simp_all add: valid_input_def well_typed_metrics_def fast_event_def get_def)
  from logQCHAIN_ill_typed [OF v w, of env0 online0] v show ?thesis
    by (simp add: getQCHAINLogs_def online0_def)
qed

text \<open>
  C1 (amended). For every valid input (\<^verbatim>\<open>event\<close> and \<^verbatim>\<open>txId\<close> non-empty) whose
  \<^verbatim>\<open>metrics\<close> is absent, falsy, an object or an array, \<^verbatim>\<open>logQCHAIN\<close> writes the signed
  record to the local store whatever the connectivity and before any transmission: the
  write is the first effect of the call and adds one entry, whose JSON text is that of
  the caller's object with the signature added, after the entries that were there; a
  transmission follows only when online; and when the transmission fails the failure is
  logged and the call still returns its result with the \<^verbatim>\<open>txId\<close> and the signature.
\<close>

theorem append_persists_before_transmitting:
  assumes "valid_input data" and "well_typed_metrics data"
  shows "case logQCHAIN e data s of (result, data', s') \<Rightarrow>
           result = Inr \<lparr>r_status = ''logged'', r_txId = get data ''txId'',
                          r_signature = createQuantumSignature e (Obj data')\<rparr> \<and>
           getQCHAINLogs s' =
             stored_form (getQCHAINLogs s @
               [Obj (put data' ''signature'' (Str (createQuantumSignature e (Obj data'))))]) \<and>
           length (getQCHAINLogs s') = Suc (length (getQCHAINLogs s)) \<and>
           JSON_stringify (last (getQCHAINLogs s')) =
             JSON_stringify
               (Obj (put data' ''signature'' (Str (createQuantumSignature e (Obj data'))))) \<and>
           (stored_form (getQCHAINLogs s) = getQCHAINLogs s \<longrightarrow>
              butlast (getQCHAINLogs s') = getQCHAINLogs s) \<and>
           events s' = events s @ [SetItem (getQCHAINLogs s')] @
             (if onLine s
              then Transmission
                     (Obj (put data' ''signature'' (Str (createQuantumSignature e (Obj data'))))) #
                   (if sinkFails e then [ConsoleError]
                    else if truthy (get data' ''interplanetary'') then [Timeout 240] else [])
              else []) \<and>
           syncRequests s' = (if backgroundSync e then syncRequests s + 1 else syncRequests s)"
proof -
  let ?d = "with_defaults e data"
  let ?r = "Obj (put ?d ''signature'' (Str (createQuantumSignature e (Obj ?d))))"
  let ?logs = "stored_form (getQCHAINLogs s @ [?r])"
  have l: "?logs = stored_form (getQCHAINLogs s) @ [json_roundtrip ?r]"
    by (rule stored_form_snoc)
  have 1: "length ?logs = Suc (length (getQCHAINLogs s))"
    by (simp add: length_stored_form)
  have 2: "JSON_stringify (last ?logs) = JSON_stringify ?r"
    unfolding l by (simp add: JSON_stringify_roundtrip del: json_roundtrip.simps)
  have 3: "stored_form (getQCHAINLogs s) = getQCHAINLogs s \<longrightarrow> butlast ?logs = getQCHAINLogs s"
    unfolding l by simp
  have g: "getQCHAINLogs
             (s\<lparr>localStorage := Some ?logs, events := events s @ effects e data s,
                syncRequests := (if backgroundSync e then syncRequests s + 1 else syncRequests s)\<rparr>)
           = ?logs"
    by (simp add: getQCHAINLogs_def)
  show ?thesis
    unfolding logQCHAIN_valid [OF assms] signed_record_def prod.case g
    using 1 2 3 by (simp add: effects_def signed_record_def)
qed

theorem append_persists_before_transmitting_witness:
  "valid_input boot_event \<and> well_typed_metrics boot_event \<and>
   stored_form (getQCHAINLogs online0) = getQCHAINLogs online0 \<and>
   fst (logQCHAIN faulty_env boot_event online0) =
     Inr \<lparr>r_status = ''logged'', r_txId = Str ''TX-1'',
           r_signature = createQuantumSignature faulty_env
             (Obj (fst (snd (logQCHAIN faulty_env boot_event online0))))\<rparr> \<and>
   length (getQCHAINLogs (snd (snd (logQCHAIN faulty_env boot_event online0)))) = 1 \<and>
   events (snd (snd (logQCHAIN faulty_env boot_event online0))) =
     [SetItem (getQCHAINLogs (snd (snd (logQCHAIN faulty_env boot_event online0)))),
      Transmission (Obj (put (fst (snd (logQCHAIN faulty_env boot_event online0))) ''signature''
         (Str (createQuantumSignature faulty_env
             (Obj (fst (snd (logQCHAIN faulty_env boot_event online0)))))))),
      ConsoleError]"
proof -
  have v: "valid_input boot_event" and w: "well_typed_metrics boot_event"
    by (simp_all add: valid_input_def well_typed_metrics_def boot_event_def get_def)
  have n: "stored_form (getQCHAINLogs online0) = getQCHAINLogs online0"
    by (simp add: getQCHAINLogs_def online0_def stored_form_def)
  have z: "getQCHAINLogs online0 = []" "events online0 = []" "onLine online0"
    "sinkFails faulty_env"
    by (simp_all add: getQCHAINLogs_def online0_def faulty_env_def)
  from append_persists_before_transmitting [OF v w, of faulty_env online0] v w n
  show ?thesis
    by (simp add: z get_def boot_event_def length_stored_form split: prod.splits)
qed

text \<open>
  C2 (counterexample). \<^verbatim>\<open>event\<close> and \<^verbatim>\<open>txId\<close> are present and non-empty, \<^verbatim>\<open>metrics\<close>
  is the number 7, and the call does not succeed: it is rejected with a \<^verbatim>\<open>TypeError\<close>.
\<close>

theorem valid_fields_yet_rejected:
  "get count_event ''event'' = Str ''count'' \<and> get count_event ''txId'' = Str ''TX-4'' \<and>
   valid_input count_event \<and>
   fst (logQCHAIN env0 count_event offline0) = Inl TypeError"
proof -
  have v: "valid_input count_event" and w: "\<not> well_typed_metrics count_event"
    by (simp_all add: valid_input_def well_typed_metrics_def count_event_def get_def)
  from logQCHAIN_ill_typed [OF v w, of env0 offline0] v show ?thesis
    by (simp add: count_event_def get_def)
qed

text \<open>
  C2 (amended). When \<^verbatim>\<open>event\<close> or \<^verbatim>\<open>txId\<close> is missing or empty (or falsy in any other
  way), \<^verbatim>\<open>logQCHAIN\<close> fails with its validation error before anything is changed: the
  caller's object, the store and the effects are as they were. When both are there and
  non-empty the validation error never occurs; the call then succeeds if \<^verbatim>\<open>metrics\<close> is
  absent, falsy, an object or an array, and is rejected with a \<^verbatim>\<open>TypeError\<close>, the state
  unchanged, if \<^verbatim>\<open>metrics\<close> is a truthy primitive.
\<close>

theorem append_validates_first:
  "(\<not> valid_input data \<longrightarrow>
      logQCHAIN e data s = (Inl (Error ''QCHAIN log requires event and txId fields''), data, s)) \<and>
   (valid_input data \<longrightarrow> (\<forall>msg. fst (logQCHAIN e data s) \<noteq> Inl (Error msg))) \<and>
   (valid_input data \<and> well_typed_metrics data \<longrightarrow> (\<exists>result. fst (logQCHAIN e data s) = Inr result)) \<and>
   (valid_input data \<and> \<not> well_typed_metrics data \<longrightarrow>
      fst (logQCHAIN e data s) = Inl TypeError \<and> snd (snd (logQCHAIN e data s)) = s)"
proof -
  have "fst (logQCHAIN e data s) \<noteq> Inl (Error msg)" if v: "valid_input data" for msg
  proof (cases "well_typed_metrics data")
    case True
    with v show ?thesis by (simp add: logQCHAIN_valid)
  next
    case False
    with v show ?thesis by (simp add: logQCHAIN_ill_typed)
  qed
  then show ?thesis
    by (simp add: logQCHAIN_invalid logQCHAIN_valid logQCHAIN_ill_typed)
qed

theorem append_validates_first_witness:
  "\<not> valid_input [(''event'', Str ''boot'')] \<and>
   logQCHAIN env0 [(''event'', Str ''boot'')] offline0 =
     (Inl (Error ''QCHAIN log requires event and txId fields''), [(''event'', Str ''boot'')], offline0) \<and>
   \<not> valid_input [(''event'', Str ''''), (''txId'', Str ''TX-1'')] \<and>
   valid_input boot_event \<and> well_typed_metrics boot_event \<and>
   (\<exists>result. fst (logQCHAIN env0 boot_event offline0) = Inr result) \<and>
   valid_input fast_event \<and> \<not> well_typed_metrics fast_event \<and>
   fst (logQCHAIN env0 fast_event offline0) = Inl TypeError"
  using append_validates_first [of "[(''event'', Str ''boot'')]" env0 offline0]
        append_validates_first [of boot_event env0 offline0]
        append_validates_first [of fast_event env0 offline0]
  by (simp add: valid_input_def well_typed_metrics_def boot_event_def fast_event_def get_def)

section \<open>Signatures\<close>

text \<open>
  C3. The signature of a record is a function of its content and the clock reading alone:
  another call at the same reading gives the same signature, the reading can be read
  back from it, and verifying the record against its genuine signature returns true.
\<close>

theorem genuine_signature_verifies:
  "timestampMatch (createQuantumSignature e (Obj data)) = Some (string_of_nat (dateNow e)) \<and>
   verifyQCHAINSignature (Obj data) (createQuantumSignature e (Obj data)) \<and>
   (dateNow e' = dateNow e \<longrightarrow>
      createQuantumSignature e' (Obj data) = createQuantumSignature e (Obj data))"
  by (simp add: timestampMatch_created verify_created) (simp add: createQuantumSignature_def)

theorem genuine_signature_verifies_witness:
  "dateNow faulty_env = dateNow env0 \<and>
   createQuantumSignature faulty_env (Obj boot_event) = createQuantumSignature env0 (Obj boot_event) \<and>
   verifyQCHAINSignature (Obj boot_event) (createQuantumSignature env0 (Obj boot_event))"
  using genuine_signature_verifies [of env0 boot_event faulty_env]
  by (simp add: faulty_env_def env0_def)

text \<open>
  C4 (counterexample). A record is appended whose \<^verbatim>\<open>metrics.latency\<close> is \<^verbatim>\<open>NaN\<close>; then
  that field of the caller's object is changed to \<^verbatim>\<open>null\<close>. \<^verbatim>\<open>JSON.stringify\<close> writes both
  as \<^verbatim>\<open>null\<close>, so the changed record still verifies against the original signature.
\<close>

theorem mutation_unseen_by_stringify:
  "case logQCHAIN env0 nan_event offline0 of
     (result, data', s') \<Rightarrow>
       (case result of
          Inl err \<Rightarrow> False
        | Inr r \<Rightarrow>
            get data' ''metrics'' = Obj [(''latency'', Number NaN), (''compliance'', Str ''100%'')] \<and>
            get (put data' ''metrics'' null_metrics) ''metrics'' = null_metrics \<and>
            put data' ''metrics'' null_metrics \<noteq> data' \<and>
            verifyQCHAINSignature (Obj (put data' ''metrics'' null_metrics)) (r_signature r))"
proof -
  have v: "valid_input nan_event" and w: "well_typed_metrics nan_event"
    by (simp_all add: valid_input_def well_typed_metrics_def nan_event_def get_def)
  have d: "with_defaults env0 nan_event =
     [(''event'', Str ''sync''), (''txId'', Str ''TX-2''),
      (''metrics'', Obj [(''latency'', Number NaN), (''compliance'', Str ''100%'')]),
      (''timestamp'', Str ''2023-11-14T22:13:20.000Z''), (''interplanetary'', Boolean True)]"
    by (simp add: with_defaults_def default_metrics_def nan_event_def env0_def get_def Let_def)
  have t: "stringify_text (Obj (put (with_defaults env0 nan_event) ''metrics'' null_metrics))
             = stringify_text (Obj (with_defaults env0 nan_event))"
    unfolding d by (simp add: stringify_text_def null_metrics_def)
  show ?thesis
    unfolding logQCHAIN_valid [OF v w]
    by (simp add: verify_digest16 digest16_def t get_put_same)
       (simp add: d get_def null_metrics_def)
qed

text \<open>
  C4 (amended). Verifying a record against the signature made for another record returns
  true exactly when the first 16 hexadecimal digits of SHA-256 over
  \<^verbatim>\<open>JSON.stringify(record) + timestamp\<close> are the same for both; in particular a change
  that \<^verbatim>\<open>JSON.stringify\<close> does not show is not detected.
\<close>

theorem verify_compares_digests:
  "(verifyQCHAINSignature (Obj data') (createQuantumSignature e (Obj data)) \<longleftrightarrow>
      digest16 (Obj data') (string_of_nat (dateNow e))
        = digest16 (Obj data) (string_of_nat (dateNow e))) \<and>
   (JSON_stringify (Obj data') = JSON_stringify (Obj data) \<longrightarrow>
      verifyQCHAINSignature (Obj data') (createQuantumSignature e (Obj data)))"
  by (simp add: verify_digest16 digest16_def stringify_text_def)

theorem verify_compares_digests_witness:
  "JSON_stringify (Obj [(''latency'', Null)]) = JSON_stringify (Obj [(''latency'', Number NaN)]) \<and>
   verifyQCHAINSignature (Obj [(''latency'', Null)])
     (createQuantumSignature env0 (Obj [(''latency'', Number NaN)]))"
proof -
  have j: "JSON_stringify (Obj [(''latency'', Null)]) = JSON_stringify (Obj [(''latency'', Number NaN)])"
    by simp
  from verify_compares_digests [of "[(''latency'', Null)]" env0 "[(''latency'', Number NaN)]"] j
  show ?thesis by blast
qed

text \<open>
  A change that the JSON text shows, in one case: the boot event signed at the clock
  reading of \<open>env0\<close>, then its \<^verbatim>\<open>event\<close> changed from \<^verbatim>\<open>boot\<close> to \<^verbatim>\<open>boom\<close>. The digests
  of the two texts begin \<^verbatim>\<open>81f24475bf661db3\<close> and \<^verbatim>\<open>fc1f7075ccc4f513\<close>, and verifying the
  changed record against the original signature returns false.
\<close>

theorem visible_mutation_detected:
  "get (put boot_event ''event'' (Str ''boom'')) ''event'' \<noteq> get boot_event ''event'' \<and>
   verifyQCHAINSignature (Obj boot_event) (createQuantumSignature env0 (Obj boot_event)) \<and>
   \<not> verifyQCHAINSignature (Obj (put boot_event ''event'' (Str ''boom'')))
        (createQuantumSignature env0 (Obj boot_event))"
  by (simp add: verify_digest16 digest16_boot digest16_boom) (simp add: boot_event_def get_def)

text \<open>
  C7. \<^verbatim>\<open>verifyQCHAINSignature\<close> fails closed: a signature string that nowhere contains
  \<^verbatim>\<open>QS-\<close>, hexadecimal digits, \<^verbatim>\<open>-\<close> and decimal digits in a row has no timestamp to
  extract, and the result is false (the function is total: nothing is thrown).
\<close>

theorem verify_fails_closed:
  assumes "\<not> (\<exists>pre h d post. signature = pre @ ''QS-'' @ h @ ''-'' @ d @ post \<and>
                h \<noteq> [] \<and> list_all is_hex h \<and> d \<noteq> [] \<and> list_all is_digit d)"
  shows "timestampMatch signature = None \<and> \<not> verifyQCHAINSignature data signature"
proof -
  have "timestampMatch signature = None"
    by (rule iffD2 [OF timestampMatch_None_iff assms])
  then show ?thesis
    by (simp add: verifyQCHAINSignature_def)
qed

theorem verify_fails_closed_witness:
  "timestampMatch ''QS-12xy-77'' = None \<and> \<not> verifyQCHAINSignature (Obj boot_event) ''QS-12xy-77''"
proof -
  have "timestampMatch ''QS-12xy-77'' = None"
    by (simp add: match_at_def is_hex_def is_digit_def)
  then have "\<not> (\<exists>pre h d post. ''QS-12xy-77'' = pre @ ''QS-'' @ h @ ''-'' @ d @ post \<and>
                h \<noteq> [] \<and> list_all is_hex h \<and> d \<noteq> [] \<and> list_all is_digit d)"
    by (rule iffD1 [OF timestampMatch_None_iff])
  from verify_fails_closed [OF this] show ?thesis .
qed

text \<open>
  The signature that a successful call returns verifies against the caller's object as
  the call leaves it (defaults filled in, no \<^verbatim>\<open>signature\<close> property added).
\<close>

theorem returned_signature_verifies:
  assumes "logQCHAIN e data s = (Inr r, data', s')"
  shows "verifyQCHAINSignature (Obj data') (r_signature r)"
  using logQCHAIN_success(4) [OF assms] by (simp add: verify_created)

theorem returned_signature_verifies_witness:
  "verifyQCHAINSignature (Obj (fst (snd (logQCHAIN env0 boot_event offline0))))
     (createQuantumSignature env0 (Obj (with_defaults env0 boot_event)))"
proof -
  have v: "valid_input boot_event" and w: "well_typed_metrics boot_event"
    by (simp_all add: valid_input_def well_typed_metrics_def boot_event_def get_def)
  from returned_signature_verifies [OF logQCHAIN_valid [OF v w, of env0 offline0]]
  show ?thesis by (simp add: logQCHAIN_valid [OF v w])
qed

text \<open>
  The record that \<^verbatim>\<open>getQCHAINLogs\<close> returns for the call is the caller's object with the
  \<^verbatim>\<open>signature\<close> property added, as \<^verbatim>\<open>JSON.parse\<close> reads it back. It verifies against
  its own signature exactly when adding the property does not change the first 16
  hexadecimal digits of the digest.
\<close>

theorem stored_record_verifies_iff:
  assumes "logQCHAIN e data s = (Inr r, data', s')"
  shows "last (getQCHAINLogs s') = json_roundtrip (Obj (put data' ''signature'' (Str (r_signature r)))) \<and>
         (verifyQCHAINSignature (last (getQCHAINLogs s')) (r_signature r) \<longleftrightarrow>
            digest16 (Obj (put data' ''signature'' (Str (r_signature r)))) (string_of_nat (dateNow e))
              = digest16 (Obj data') (string_of_nat (dateNow e)))"
proof -
  note s = logQCHAIN_success [OF assms]
  have l: "last (getQCHAINLogs s') = json_roundtrip (Obj (put data' ''signature'' (Str (r_signature r))))"
    unfolding s(5) stored_form_append signed_record_def s(3) [symmetric] s(4) [symmetric]
      stored_form_record by simp
  show ?thesis
    unfolding l verify_roundtrip
    by (simp add: s(4) verify_digest16)
qed

text \<open>
  In one case the digests are evaluated: the boot event appended offline at the clock
  reading of \<open>env0\<close>. The call returns the signature
  \<^verbatim>\<open>QS-e18da1896a362308-1700000000000\<close>, which verifies against the caller's object; the
  record that \<^verbatim>\<open>getQCHAINLogs\<close> returns, with the \<^verbatim>\<open>signature\<close> property, has a digest
  that begins \<^verbatim>\<open>9d6e953eb04f8c4e\<close> and does not verify against it.
\<close>

theorem stored_boot_record_fails:
  "case logQCHAIN env0 boot_event offline0 of
     (result, data', s') \<Rightarrow>
       (case result of
          Inl err \<Rightarrow> False
        | Inr r \<Rightarrow>
            r_signature r = ''QS-e18da1896a362308-1700000000000'' \<and>
            verifyQCHAINSignature (Obj data') (r_signature r) \<and>
            \<not> verifyQCHAINSignature (last (getQCHAINLogs s')) (r_signature r))"
proof -
  have v: "valid_input boot_event" and w: "well_typed_metrics boot_event"
    by (simp_all add: valid_input_def well_typed_metrics_def boot_event_def get_def)
  note l = logQCHAIN_valid [OF v w, of env0 offline0]
  have n: "\<not> verifyQCHAINSignature
               (last (getQCHAINLogs (snd (snd (logQCHAIN env0 boot_event offline0)))))
               (createQuantumSignature env0 (Obj (with_defaults env0 boot_event)))"
    using conjunct2 [OF stored_record_verifies_iff [OF l]]
    by (simp add: l signature_of_boot_record digest16_stored digest16_logged)
  have y: "verifyQCHAINSignature (Obj (with_defaults env0 boot_event))
             (createQuantumSignature env0 (Obj (with_defaults env0 boot_event)))"
    by (simp add: verify_created)
  from n y show ?thesis
    by (simp add: l signature_of_boot_record)
qed

text \<open>
  A fingerprint of 16 hexadecimal digits cannot tell all contents apart: at every clock
  reading there are two records with different JSON texts of which one verifies against
  the signature of the other. Which records these are is not known; the proof counts.
\<close>

theorem fingerprint_collisions_exist:
  "\<exists>data data'. JSON_stringify data \<noteq> JSON_stringify data' \<and>
      verifyQCHAINSignature data' (createQuantumSignature e data)"
proof -
  define f where "f = (\<lambda>n. digest16 (Obj [(''event'', Str (replicate n (CHR ''a'')))])
                            (string_of_nat (dateNow e)))"
  have "length (f n) = 16" for n
    unfolding f_def digest16_def by (rule digest_prefix_length)
  then have "range f \<subseteq> {xs. set xs \<subseteq> UNIV \<and> length xs = 16}"
    by auto
  moreover have "finite {xs :: string. set xs \<subseteq> UNIV \<and> length xs = 16}"
    by (rule finite_lists_length_eq) simp
  ultimately have "finite (range f)"
    by (rule finite_subset)
  then have "\<not> inj f"
    using finite_imageD [of f UNIV] by auto
  then obtain n m where nm: "n \<noteq> m" and eq: "f n = f m"
    by (auto simp: inj_on_def)
  let ?d = "Obj [(''event'', Str (replicate n (CHR ''a'')))]"
  let ?d' = "Obj [(''event'', Str (replicate m (CHR ''a'')))]"
  from nm have "length (stringify_text ?d) \<noteq> length (stringify_text ?d')"
    by (simp only: length_filler_text add_right_cancel not_False_eq_True)
  then have "stringify_text ?d \<noteq> stringify_text ?d'"
    by auto
  then have "JSON_stringify ?d \<noteq> JSON_stringify ?d'"
    by (auto simp: stringify_text_def)
  moreover from eq have "verifyQCHAINSignature ?d' (createQuantumSignature e ?d)"
    by (simp add: verify_digest16 f_def)
  ultimately show ?thesis by blast
qed

section \<open>The stored logs and their synchronisation\<close>

text \<open>
  C5 (counterexample). One record is appended offline and \<^verbatim>\<open>simulateSync\<close> runs twice
  with nothing appended in between: the second run performs a merge step for the same
  record again and counts it a second time.
\<close>

theorem second_sync_counterexample:
  "case simulateSync \<lparr>offlineOperations = 1, syncedOperations = 0\<rparr>
          (snd (snd (logQCHAIN env0 boot_event offline0))) of
     (metrics1, s1) \<Rightarrow>
       (case simulateSync metrics1 s1 of
          (metrics2, s2) \<Rightarrow>
            syncedOperations metrics1 = 1 \<and> syncedOperations metrics2 = 2 \<and>
            events s2 = events s1 @ [Merge 0])"
proof -
  have v: "valid_input boot_event" and w: "well_typed_metrics boot_event"
    by (simp_all add: valid_input_def well_typed_metrics_def boot_event_def get_def)
  show ?thesis
    unfolding logQCHAIN_valid [OF v w]
    by (simp add: simulateSync_eq getQCHAINLogs_def offline0_def stored_form_def)
qed

text \<open>
  C5 (amended). \<^verbatim>\<open>simulateSync\<close> neither removes nor marks what it has processed: every
  run performs one merge step for each stored log and leaves the store as it was, so a
  second run in succession repeats the steps of the first (none only when the store is
  empty).
\<close>

theorem simulateSync_repeats:
  "case simulateSync metrics s of
     (metrics1, s1) \<Rightarrow>
       (case simulateSync metrics1 s1 of
          (metrics2, s2) \<Rightarrow>
            syncedOperations metrics1 = syncedOperations metrics + length (getQCHAINLogs s) \<and>
            syncedOperations metrics2 = syncedOperations metrics1 + length (getQCHAINLogs s) \<and>
            events s2 = events s1 @ map Merge [0..<length (getQCHAINLogs s)] \<and>
            getQCHAINLogs s2 = getQCHAINLogs s)"
  by (simp add: simulateSync_eq getQCHAINLogs_def)

text \<open>
  C6 (counterexample). A record appended while online is transmitted without failure, and
  \<^verbatim>\<open>getQCHAINLogs\<close> returns it all the same.
\<close>

theorem getQCHAINLogs_returns_transmitted:
  "case logQCHAIN env0 boot_event online0 of
     (result, data', s') \<Rightarrow>
       events s' = [SetItem [signed_record env0 boot_event],
                    Transmission (signed_record env0 boot_event), Timeout 240] \<and>
       getQCHAINLogs s' = [signed_record env0 boot_event]"
proof -
  have v: "valid_input boot_event" and w: "well_typed_metrics boot_event"
    by (simp_all add: valid_input_def well_typed_metrics_def boot_event_def get_def)
  have d: "with_defaults env0 boot_event =
     [(''event'', Str ''boot''), (''txId'', Str ''TX-1''),
      (''timestamp'', Str ''2023-11-14T22:13:20.000Z''), (''interplanetary'', Boolean True),
      (''metrics'', Obj [(''compliance'', Str ''100%'')])]"
    by (simp add: with_defaults_def default_metrics_def boot_event_def env0_def get_def Let_def)
  have r: "stored_form [signed_record env0 boot_event] = [signed_record env0 boot_event]"
    unfolding signed_record_def d by (simp add: stored_form_def)
  have i: "truthy (get (with_defaults env0 boot_event) ''interplanetary'')"
    unfolding d by (simp add: get_def)
  show ?thesis
    unfolding logQCHAIN_valid [OF v w]
    by (simp add: effects_def getQCHAINLogs_def online0_def r i) (simp add: env0_def)
qed

text \<open>
  C6 (amended). \<^verbatim>\<open>getQCHAINLogs\<close> returns every locally stored record, transmitted or not,
  in insertion order: after a run of accepted appends, whatever the connectivity, it
  returns what was stored before followed by the appended records (each as
  \<^verbatim>\<open>JSON.parse\<close> reads it back: defaults filled in, signature added), in the order of
  the appends.
\<close>

theorem getQCHAINLogs_all_in_order:
  assumes "list_all (\<lambda>(e, data). valid_input data \<and> well_typed_metrics data) inputs"
    and "stored_form (getQCHAINLogs s) = getQCHAINLogs s"
  shows "getQCHAINLogs (logAll inputs s)
           = getQCHAINLogs s @ map (\<lambda>(e, data). json_roundtrip (signed_record e data)) inputs"
  using assms by (rule logs_after_logAll)

theorem getQCHAINLogs_all_in_order_witness:
  "list_all (\<lambda>(e, data). valid_input data \<and> well_typed_metrics data)
     [(env0, boot_event), (faulty_env, second_event)] \<and>
   stored_form (getQCHAINLogs offline0) = getQCHAINLogs offline0 \<and>
   getQCHAINLogs (logAll [(env0, boot_event), (faulty_env, second_event)] offline0)
     = [json_roundtrip (signed_record env0 boot_event),
        json_roundtrip (signed_record faulty_env second_event)]"
proof -
  have a: "list_all (\<lambda>(e, data). valid_input data \<and> well_typed_metrics data)
     [(env0, boot_event), (faulty_env, second_event)]"
    by (simp add: valid_input_def well_typed_metrics_def boot_event_def second_event_def get_def)
  have b: "stored_form (getQCHAINLogs offline0) = getQCHAINLogs offline0"
    by (simp add: getQCHAINLogs_def offline0_def stored_form_def)
  from getQCHAINLogs_all_in_order [OF a b] a b show ?thesis
    by (simp add: getQCHAINLogs_def offline0_def)
qed

section \<open>The caller's object\<close>

text \<open>
  C8 (counterexample). The caller supplies a \<^verbatim>\<open>metrics\<close> mapping without
  \<^verbatim>\<open>compliance\<close>; after the call the mapping has a second entry.
\<close>

theorem metrics_entry_added:
  "get coherence_event ''metrics'' = Obj [(''phiCoherence'', Number (Finite 1))] \<and>
   fst (logQCHAIN env0 coherence_event offline0) =
     Inr \<lparr>r_status = ''logged'', r_txId = Str ''TX-3'',
           r_signature = createQuantumSignature env0 (Obj (with_defaults env0 coherence_event))\<rparr> \<and>
   get (fst (snd (logQCHAIN env0 coherence_event offline0))) ''metrics'' =
     Obj [(''phiCoherence'', Number (Finite 1)), (''compliance'', Str ''100%'')]"
proof -
  have v: "valid_input coherence_event" and w: "well_typed_metrics coherence_event"
    by (simp_all add: valid_input_def well_typed_metrics_def coherence_event_def get_def)
  show ?thesis
    unfolding logQCHAIN_valid [OF v w]
    by (simp add: get_with_defaults_metrics default_metrics_def)
       (simp add: coherence_event_def get_def)
qed

text \<open>
  C8 (amended). A \<^verbatim>\<open>metrics\<close> mapping supplied by the caller keeps every entry other
  than \<^verbatim>\<open>compliance\<close>; \<^verbatim>\<open>compliance\<close> is kept when it is truthy and set to
  \<^verbatim>\<open>'100%'\<close> when it is absent or falsy.
\<close>

theorem metrics_only_gains_compliance:
  assumes "logQCHAIN e data s = (Inr r, data', s')" and "get data ''metrics'' = Obj m"
  shows "get data' ''metrics'' =
           Obj (if truthy (get m ''compliance'') then m else put m ''compliance'' (Str ''100%'')) \<and>
         (\<forall>k. k \<noteq> ''compliance'' \<longrightarrow> get_prop (get data' ''metrics'') k = get m k)"
  using logQCHAIN_success(3) [OF assms(1)] assms(2)
  by (simp add: get_with_defaults_metrics default_metrics_def get_put_other)

theorem metrics_only_gains_compliance_witness:
  "get coherence_event ''metrics'' = Obj [(''phiCoherence'', Number (Finite 1))] \<and>
   get (fst (snd (logQCHAIN env0 coherence_event offline0))) ''metrics'' =
     Obj [(''phiCoherence'', Number (Finite 1)), (''compliance'', Str ''100%'')] \<and>
   get_prop (get (fst (snd (logQCHAIN env0 coherence_event offline0))) ''metrics'') ''phiCoherence''
     = Number (Finite 1)"
proof -
  have v: "valid_input coherence_event" and w: "well_typed_metrics coherence_event"
    by (simp_all add: valid_input_def well_typed_metrics_def coherence_event_def get_def)
  have m: "get coherence_event ''metrics'' = Obj [(''phiCoherence'', Number (Finite 1))]"
    by (simp add: coherence_event_def get_def)
  from metrics_only_gains_compliance [OF logQCHAIN_valid [OF v w, of env0 offline0] m] m
  show ?thesis by (simp add: logQCHAIN_valid [OF v w] get_def)
qed

text \<open>
  C9. \<^verbatim>\<open>logQCHAIN\<close> mutates the object it was given: after a successful call an absent
  \<^verbatim>\<open>timestamp\<close>, \<^verbatim>\<open>interplanetary\<close> flag, \<^verbatim>\<open>metrics\<close> mapping and
  \<^verbatim>\<open>metrics.compliance\<close> entry are in that object, its other properties are as they
  were, and no \<^verbatim>\<open>signature\<close> is added to it: the signature is in the result and in
  the stored copy only.
\<close>

theorem append_mutates_argument:
  assumes "logQCHAIN e data s = (Inr r, data', s')"
  shows "(get data ''timestamp'' = Undefined \<longrightarrow> get data' ''timestamp'' = Str (isoNow e)) \<and>
         (get data ''interplanetary'' = Undefined \<longrightarrow> get data' ''interplanetary'' = Boolean True) \<and>
         (get data ''metrics'' = Undefined \<longrightarrow>
            get data' ''metrics'' = Obj [(''compliance'', Str ''100%'')]) \<and>
         (\<forall>m. get data ''metrics'' = Obj m \<and> get m ''compliance'' = Undefined \<longrightarrow>
            get data' ''metrics'' = Obj (put m ''compliance'' (Str ''100%''))) \<and>
         (\<forall>k. k \<noteq> ''timestamp'' \<and> k \<noteq> ''interplanetary'' \<and> k \<noteq> ''metrics'' \<longrightarrow>
            map_of data' k = map_of data k) \<and>
         map_of data' ''signature'' = map_of data ''signature'' \<and>
         r_signature r = createQuantumSignature e (Obj data') \<and>
         getQCHAINLogs s' =
           stored_form (getQCHAINLogs s @ [Obj (put data' ''signature'' (Str (r_signature r)))])"
proof -
  note s = logQCHAIN_success [OF assms]
  have 1: "get data ''timestamp'' = Undefined \<longrightarrow> get data' ''timestamp'' = Str (isoNow e)"
    by (simp add: s(3) get_with_defaults_timestamp)
  have 2: "get data ''interplanetary'' = Undefined \<longrightarrow> get data' ''interplanetary'' = Boolean True"
    by (simp add: s(3) get_with_defaults_interplanetary)
  have 3: "get data ''metrics'' = Undefined \<longrightarrow>
            get data' ''metrics'' = Obj [(''compliance'', Str ''100%'')]"
    by (simp add: s(3) get_with_defaults_metrics default_metrics_def)
  have 4: "\<forall>m. get data ''metrics'' = Obj m \<and> get m ''compliance'' = Undefined \<longrightarrow>
            get data' ''metrics'' = Obj (put m ''compliance'' (Str ''100%''))"
    by (simp add: s(3) get_with_defaults_metrics default_metrics_def)
  have 5: "\<forall>k. k \<noteq> ''timestamp'' \<and> k \<noteq> ''interplanetary'' \<and> k \<noteq> ''metrics'' \<longrightarrow>
            map_of data' k = map_of data k"
    by (simp add: s(3) map_of_with_defaults_other)
  have 6: "map_of data' ''signature'' = map_of data ''signature''"
    by (simp add: s(3) map_of_with_defaults_other)
  have 7: "getQCHAINLogs s' =
           stored_form (getQCHAINLogs s @ [Obj (put data' ''signature'' (Str (r_signature r)))])"
    unfolding s(4) s(5) s(3) signed_record_def by (rule refl)
  from 1 2 3 4 5 6 7 s(4) show ?thesis by blast
qed

theorem append_mutates_argument_witness:
  "get boot_event ''timestamp'' = Undefined \<and> get boot_event ''interplanetary'' = Undefined \<and>
   get boot_event ''metrics'' = Undefined \<and>
   fst (snd (logQCHAIN env0 boot_event offline0)) =
     [(''event'', Str ''boot''), (''txId'', Str ''TX-1''),
      (''timestamp'', Str ''2023-11-14T22:13:20.000Z''), (''interplanetary'', Boolean True),
      (''metrics'', Obj [(''compliance'', Str ''100%'')])] \<and>
   get (fst (snd (logQCHAIN env0 boot_event offline0))) ''timestamp'' = Str (isoNow env0) \<and>
   get (fst (snd (logQCHAIN env0 boot_event offline0))) ''interplanetary'' = Boolean True \<and>
   get (fst (snd (logQCHAIN env0 boot_event offline0))) ''metrics''
     = Obj [(''compliance'', Str ''100%'')] \<and>
   map_of (fst (snd (logQCHAIN env0 boot_event offline0))) ''signature'' = None"
proof -
  have v: "valid_input boot_event" and w: "well_typed_metrics boot_event"
    by (simp_all add: valid_input_def well_typed_metrics_def boot_event_def get_def)
  have u: "get boot_event ''timestamp'' = Undefined" "get boot_event ''interplanetary'' = Undefined"
    "get boot_event ''metrics'' = Undefined" "map_of boot_event ''signature'' = None"
    by (simp_all add: boot_event_def get_def)
  have d: "with_defaults env0 boot_event =
     [(''event'', Str ''boot''), (''txId'', Str ''TX-1''),
      (''timestamp'', Str ''2023-11-14T22:13:20.000Z''), (''interplanetary'', Boolean True),
      (''metrics'', Obj [(''compliance'', Str ''100%'')])]"
    by (simp add: with_defaults_def default_metrics_def boot_event_def env0_def get_def Let_def)
  from append_mutates_argument [OF logQCHAIN_valid [OF v w, of env0 offline0]] u
  show ?thesis
    by (simp add: logQCHAIN_valid [OF v w] d)
qed

end
